theory Spec2Isabelle
  imports Main "HOL-Library.Sublist" "HOL-Library.Multiset" "HOL-Library.List_Lexorder"
begin

section \<open>Data model (types.ts)\<close>

datatype CommitSource = GITHUB | AZURE | MANUAL

text \<open>
  The interface \<^verbatim>\<open>Commit\<close>. The field \<^verbatim>\<open>id\<close> is called \<open>commit_id\<close> here, since
  \<open>id\<close> is the identity function of HOL. The optional fields \<^verbatim>\<open>author?\<close> and
  \<^verbatim>\<open>date?\<close> are options: \<open>None\<close> is the absent (undefined) field.
\<close>

record Commit =
  commit_id :: string
  hash :: string
  message :: string
  diff :: string
  author :: "string option"
  date :: "string option"
  source :: CommitSource

record GenerationConfig =
  extraInfo :: string
  setupInstructions :: string
  previousDocContent :: "string option"

subsection \<open>JavaScript strings and truthiness\<close>

text \<open>
  A string is a list of characters, its \<^verbatim>\<open>length\<close> the length of the list,
  \<^verbatim>\<open>s.substring(0, n)\<close> is \<open>take n s\<close>. The characters of HOL have 8 bits, those of
  JavaScript 16: the model holds the texts whose code units are below 256. A value of type \<^verbatim>\<open>string | undefined\<close> is a
  \<open>string option\<close>; it is falsy when it is undefined or the empty string.
\<close>

definition truthy :: "string option \<Rightarrow> bool" where
  "truthy v = (case v of None \<Rightarrow> False | Some s \<Rightarrow> s \<noteq> [])"

text \<open>\<^verbatim>\<open>v || d\<close> for an optional string \<open>v\<close> and a string \<open>d\<close>.\<close>

definition or_else :: "string option \<Rightarrow> string \<Rightarrow> string" where
  "or_else v d = (case v of None \<Rightarrow> d | Some s \<Rightarrow> if s = [] then d else s)"

text \<open>\<^verbatim>\<open>s.split(c)\<close> for a one-character separator: never the empty list.\<close>

fun split_on :: "char \<Rightarrow> string \<Rightarrow> string list" where
  "split_on c [] = [[]]"
| "split_on c (x # xs) =
     (if x = c then [] # split_on c xs
      else (case split_on c xs of [] \<Rightarrow> [[x]] | p # ps \<Rightarrow> (x # p) # ps))"

text \<open>\<^verbatim>\<open>xs[i]\<close>: undefined out of range.\<close>

definition at_index :: "'a list \<Rightarrow> nat \<Rightarrow> 'a option" where
  "at_index xs i = (if i < length xs then Some (xs ! i) else None)"

text \<open>\<^verbatim>\<open>xs.indexOf(x)\<close>: the first index of \<open>x\<close>, or \<open>-1\<close>.\<close>

fun indexOf :: "'a list \<Rightarrow> 'a \<Rightarrow> int" where
  "indexOf [] x = -1"
| "indexOf (y # ys) x =
     (if y = x then 0 else (let i = indexOf ys x in if i = -1 then -1 else i + 1))"

definition endsWith :: "string \<Rightarrow> string \<Rightarrow> bool" where
  "endsWith s t = suffix t s"

text \<open>\<^verbatim>\<open>s.includes(t)\<close>: \<open>t\<close> occurs in \<open>s\<close> at some position.\<close>

fun includes_str :: "string \<Rightarrow> string \<Rightarrow> bool" where
  "includes_str [] t = (t = [])"
| "includes_str (x # xs) t = (prefix t (x # xs) \<or> includes_str xs t)"

text \<open>\<^verbatim>\<open>xs.join(sep)\<close>.\<close>

fun join :: "string \<Rightarrow> string list \<Rightarrow> string" where
  "join sep [] = []"
| "join sep [x] = x"
| "join sep (x # y # ys) = x @ sep @ join sep (y # ys)"

section \<open>The platform and the outside world\<close>

text \<open>
  The program runs on a JavaScript platform whose functions are not part of the
  repository. Those the code calls are parameters of the model:
  \<^item> \<open>new_URL\<close>: the constructor \<^verbatim>\<open>new URL(s)\<close>, \<open>None\<close> when it throws, and
    otherwise the \<^verbatim>\<open>hostname\<close> and \<^verbatim>\<open>pathname\<close> it reports;
  \<^item> \<open>btoa\<close>: the Base64 encoder;
  \<^item> \<open>localeCompare\<close>: \<^verbatim>\<open>a.localeCompare(b)\<close>, negative, zero or positive.
\<close>

record URL =
  hostname :: string
  pathname :: string

record platform =
  new_URL :: "string \<Rightarrow> URL option"
  btoa :: "string \<Rightarrow> string"
  localeCompare :: "string \<Rightarrow> string \<Rightarrow> int"

subsection \<open>Payloads of the providers\<close>

text \<open>
  A response body that parses as JSON is one of the shapes the providers document
  (section 6 of the specification); the fields the code reads are the fields of the
  records. \<open>MessageJson m\<close> is an error object with the field \<^verbatim>\<open>message\<close>,
  \<open>OtherJson\<close> any other object.
\<close>

record AzureAuthor =
  author_name :: "string option"
  author_date :: "string option"

record AzureCommitData =
  commitId :: string
  comment :: string
  commit_author :: "AzureAuthor option"

record ChangeItem =
  path :: string
  url :: string
  isFolder :: bool

record Change =
  item :: ChangeItem
  changeType :: string

record RepositoryJson =
  json_id :: string
  json_name :: string
  json_webUrl :: string
  json_project_name :: string

record GitHubFile =
  filename :: string
  file_status :: string
  patch :: "string option"

record GitHubCommitResponse =
  sha :: string
  commit_message :: string
  commit_author_name :: string
  commit_author_date :: string
  files :: "GitHubFile list option"

datatype json =
    CommitJson AzureCommitData
  | ChangesJson "Change list"
  | RepositoriesJson "RepositoryJson list"
  | GitHubJson GitHubCommitResponse
  | MessageJson string
  | OtherJson

subsection \<open>Requests, responses and the world\<close>

record request =
  req_url :: string
  req_headers :: "(string \<times> string) list"

text \<open>
  A response has a status; \<^verbatim>\<open>text()\<close> and \<^verbatim>\<open>json()\<close> read its body, and are \<open>None\<close>
  when the promise they return rejects.
\<close>

record response =
  status :: nat
  body_text :: "string option"
  body_json :: "json option"

definition ok :: "response \<Rightarrow> bool" where
  "ok r = (200 \<le> status r \<and> status r \<le> 299)"

text \<open>\<^verbatim>\<open>fetch\<close> rejects (a transport failure) or resolves to a response.\<close>

datatype outcome = Rejected | Responded response

text \<open>The text-generation call throws an object (with or without a message) or
  returns a response, whose \<^verbatim>\<open>text\<close> may be undefined.\<close>

datatype generation = Threw "string option" | Generated "string option"

record GenerateRequest =
  gen_model :: string
  gen_contents :: string
  gen_systemInstruction :: string
  gen_temperature_tenths :: nat

text \<open>
  The world is what the program reads and writes outside itself. The network answers
  the \<open>n\<close>-th request of a run, so that two requests for the same address may be
  answered differently; every request is logged in \<open>requests\<close>. \<open>uuids\<close> is the
  source of \<^verbatim>\<open>crypto.randomUUID()\<close>, \<open>clock\<close> of \<^verbatim>\<open>new Date().toISOString()\<close>,
  \<open>console\<close> holds the labels written by \<^verbatim>\<open>console.error\<close>.
\<close>

record world =
  network :: "nat \<Rightarrow> request \<Rightarrow> outcome"
  requests :: "request list"
  generator :: "nat \<Rightarrow> GenerateRequest \<Rightarrow> generation"
  generations :: "GenerateRequest list"
  uuids :: "nat \<Rightarrow> string"
  uuids_drawn :: nat
  clock :: "nat \<Rightarrow> string"
  clock_reads :: nat
  console :: "string list"

definition fetch :: "request \<Rightarrow> world \<Rightarrow> outcome \<times> world" where
  "fetch rq w = (network w (length (requests w)) rq, w\<lparr>requests := requests w @ [rq]\<rparr>)"

definition generateContent :: "GenerateRequest \<Rightarrow> world \<Rightarrow> generation \<times> world" where
  "generateContent rq w =
     (generator w (length (generations w)) rq, w\<lparr>generations := generations w @ [rq]\<rparr>)"

definition randomUUID :: "world \<Rightarrow> string \<times> world" where
  "randomUUID w = (uuids w (uuids_drawn w), w\<lparr>uuids_drawn := Suc (uuids_drawn w)\<rparr>)"

definition toISOString_now :: "world \<Rightarrow> string \<times> world" where
  "toISOString_now w = (clock w (clock_reads w), w\<lparr>clock_reads := Suc (clock_reads w)\<rparr>)"

definition console_error :: "string \<Rightarrow> world \<Rightarrow> world" where
  "console_error label w = w\<lparr>console := console w @ [label]\<rparr>"

text \<open>The failures of the operations: the kinds of section 7 of the specification,
  each with the message of the \<^verbatim>\<open>Error\<close> the code throws. \<open>NetworkError\<close> is a rejected
  \<^verbatim>\<open>fetch\<close>, \<open>SyntaxError\<close> a body that is not JSON, \<open>TypeError\<close> a payload without the
  expected fields.\<close>

datatype error =
    InvalidUrl string
  | Unauthorized string
  | NotFound string
  | ProviderError string
  | NetworkError
  | SyntaxError
  | TypeError

section \<open>The commit store (App.tsx)\<close>

definition handleAddCommit :: "Commit \<Rightarrow> Commit list \<Rightarrow> Commit list" where
  "handleAddCommit commit prev = prev @ [commit]"

definition handleRemoveCommit :: "string \<Rightarrow> Commit list \<Rightarrow> Commit list" where
  "handleRemoveCommit i prev = filter (\<lambda>c. commit_id c \<noteq> i) prev"

text \<open>The store after adding the commits \<open>cs\<close>, one after the other, to the store \<open>st\<close>.\<close>

fun add_all :: "Commit list \<Rightarrow> Commit list \<Rightarrow> Commit list" where
  "add_all [] st = st"
| "add_all (c # cs) st = add_all cs (handleAddCommit c st)"

section \<open>Manual entry (CommitManager.tsx)\<close>

text \<open>The state the handler reads and writes: the store (through \<^verbatim>\<open>onAddCommit\<close>) and
  the two text fields of the form.\<close>

record manager =
  commits :: "Commit list"
  manualDiff :: string
  manualMessage :: string

definition handleManualAdd :: "manager \<Rightarrow> world \<Rightarrow> manager \<times> world" where
  "handleManualAdd m w =
     (if manualDiff m = [] then (m, w)
      else
        (let (uuid, w1) = randomUUID w;
             (now, w2) = toISOString_now w1;
             newCommit = \<lparr>commit_id = uuid, hash = ''manual'',
                          message = or_else (Some (manualMessage m)) ''Manual Diff Entry'',
                          diff = manualDiff m, author = None, date = Some now,
                          source = MANUAL\<rparr>
         in (\<lparr>commits = handleAddCommit newCommit (commits m),
              manualDiff = [], manualMessage = []\<rparr>, w2)))"

section \<open>The Azure DevOps client (azureService.ts)\<close>

subsection \<open>parseAzureUrl\<close>

record AzureUrlParts =
  org :: string
  project :: string
  repo :: string

text \<open>
  The three variables start as the empty string and are assigned elements of
  \<^verbatim>\<open>pathParts\<close>, which are undefined out of range; \<^verbatim>\<open>!org || !project || !repo\<close>
  rejects the undefined and the empty ones alike. A constructor that throws and a host
  that is neither of the two give \<^verbatim>\<open>null\<close>.
\<close>

definition parseAzureUrl :: "platform \<Rightarrow> string \<Rightarrow> AzureUrlParts option" where
  "parseAzureUrl pf u =
     (case new_URL pf u of
        None \<Rightarrow> None
      | Some urlObj \<Rightarrow>
          (let pathParts = filter (\<lambda>p. p \<noteq> []) (split_on CHR ''/'' (pathname urlObj));
               gitIndex = indexOf pathParts ''_git'';
               after_git =
                 (if gitIndex \<noteq> -1 \<and> gitIndex + 1 < int (length pathParts)
                  then at_index pathParts (nat (gitIndex + 1)) else Some []);
               (org_v, project_v, repo_v) =
                 (if endsWith (hostname urlObj) ''visualstudio.com''
                  then (at_index (split_on CHR ''.'' (hostname urlObj)) 0,
                        at_index pathParts 0, after_git)
                  else if hostname urlObj = ''dev.azure.com''
                  then (at_index pathParts 0, at_index pathParts 1, after_git)
                  else (Some [], Some [], Some []))
           in if \<not> truthy org_v \<or> \<not> truthy project_v \<or> \<not> truthy repo_v then None
              else Some \<lparr>org = or_else org_v [], project = or_else project_v [],
                         repo = or_else repo_v []\<rparr>))"

subsection \<open>fetchAzureCommit\<close>

definition auth_request :: "string \<Rightarrow> string \<Rightarrow> request" where
  "auth_request u authHeader = \<lparr>req_url = u, req_headers = [(''Authorization'', authHeader)]\<rparr>"

text \<open>\<^verbatim>\<open>err.message\<close> of the parsed error body, or of \<^verbatim>\<open>{}\<close> when it does not parse.\<close>

definition error_message :: "json option \<Rightarrow> string option" where
  "error_message j = (case j of Some (MessageJson m) \<Rightarrow> Some m | _ \<Rightarrow> None)"

text \<open>What is appended for the text of a file whose content was fetched
  (lines 170 to 174).\<close>

definition file_content_block :: "string \<Rightarrow> string" where
  "file_content_block text =
     (if length text < 30000 \<and> CHR 0x00 \<notin> set text
      then ''```\<newline>'' @ take 5000 text
           @ (if length text > 5000 then ''\<newline>... (truncated)'' else [])
           @ ''\<newline>```\<newline>''
      else ''(File too large or binary, content skipped)\<newline>'')"

definition file_header :: "Change \<Rightarrow> string" where
  "file_header change =
     ''\<newline>File: '' @ path (item change) @ '' ['' @ changeType change @ '']\<newline>''"

text \<open>
  One turn of the loop over the changes (lines 153 to 181), on the diff built so far
  and the world. The \<^verbatim>\<open>catch\<close> of line 176 catches a rejected \<^verbatim>\<open>fetch\<close> and a rejected
  \<^verbatim>\<open>text()\<close>; a response that is not \<^verbatim>\<open>ok\<close> has no branch of its own.
\<close>

definition process_change :: "string \<Rightarrow> Change \<Rightarrow> string \<times> world \<Rightarrow> string \<times> world" where
  "process_change authHeader change dw =
     (let (diffContent, w) = dw;
          d1 = diffContent @ file_header change
      in if changeType change \<in> set [''edit'', ''add''] \<and> \<not> isFolder (item change)
         then (case fetch (auth_request (url (item change)) authHeader) w of
                 (Rejected, w1) \<Rightarrow>
                   (d1 @ ''(Could not fetch file content)\<newline>'' @ ''---\<newline>'', w1)
               | (Responded contentResponse, w1) \<Rightarrow>
                   (if ok contentResponse
                    then (case body_text contentResponse of
                            None \<Rightarrow>
                              (d1 @ ''(Could not fetch file content)\<newline>'' @ ''---\<newline>'', w1)
                          | Some text \<Rightarrow>
                              (d1 @ file_content_block text @ ''---\<newline>'', w1))
                    else (d1 @ ''---\<newline>'', w1)))
         else (d1 @ ''---\<newline>'', w))"

fun process_changes :: "string \<Rightarrow> Change list \<Rightarrow> string \<times> world \<Rightarrow> string \<times> world" where
  "process_changes authHeader [] dw = dw"
| "process_changes authHeader (change # changes) dw =
     process_changes authHeader changes (process_change authHeader change dw)"

text \<open>Lines 146 to 189: the diff, from the response to the request for the changes.
  \<^verbatim>\<open>changesData.changes || []\<close> is the empty list for a body without changes.\<close>

definition changes_summary :: "string \<Rightarrow> response \<Rightarrow> world \<Rightarrow> (error + string) \<times> world" where
  "changes_summary authHeader changesResponse w =
     (let diffContent = ''## Changes Summary\<newline>''
      in if ok changesResponse
         then (case body_json changesResponse of
                 None \<Rightarrow> (Inl SyntaxError, w)
               | Some changesData \<Rightarrow>
                   (let changes = (case changesData of ChangesJson cs \<Rightarrow> cs | _ \<Rightarrow> []);
                        (d, w1) = process_changes authHeader changes (diffContent, w)
                    in (Inr (if length changes = 0
                             then d @ ''No file changes found in this commit.'' else d), w1)))
         else (Inr (diffContent @ ''Could not fetch changes list from Azure API.''), w))"

text \<open>Lines 191 to 199: the commit. The identifier is drawn first; a body without a
  \<^verbatim>\<open>commitId\<close> makes \<^verbatim>\<open>substring\<close> throw.\<close>

definition azure_commit :: "json \<Rightarrow> string \<Rightarrow> world \<Rightarrow> (error + Commit) \<times> world" where
  "azure_commit commitData diffContent w =
     (let (uuid, w1) = randomUUID w
      in case commitData of
           CommitJson cd \<Rightarrow>
             (Inr \<lparr>commit_id = uuid, hash = take 7 (commitId cd), message = comment cd,
                   diff = diffContent,
                   author = (case commit_author cd of None \<Rightarrow> None | Some a \<Rightarrow> author_name a),
                   date = (case commit_author cd of None \<Rightarrow> None | Some a \<Rightarrow> author_date a),
                   source = AZURE\<rparr>, w1)
         | _ \<Rightarrow> (Inl TypeError, w1))"

text \<open>The body of the \<^verbatim>\<open>try\<close> (lines 116 to 199).\<close>

definition azure_try :: "string \<Rightarrow> string \<Rightarrow> string \<Rightarrow> world \<Rightarrow> (error + Commit) \<times> world" where
  "azure_try baseUrl authHeader commitHash w =
     (case fetch (auth_request (baseUrl @ ''/commits/'' @ commitHash @ ''?api-version=7.1'')
                    authHeader) w of
        (Rejected, w1) \<Rightarrow> (Inl NetworkError, w1)
      | (Responded commitResponse, w1) \<Rightarrow>
          (if \<not> ok commitResponse
           then (if status commitResponse = 401
                 then (Inl (Unauthorized
                         ''Unauthorized. Please check your Personal Access Token (PAT).''), w1)
                 else (Inl (ProviderError
                         (or_else (error_message (body_json commitResponse))
                            ''Failed to fetch commit from Azure DevOps'')), w1))
           else (case body_json commitResponse of
                   None \<Rightarrow> (Inl SyntaxError, w1)
                 | Some commitData \<Rightarrow>
                     (case fetch (auth_request
                                    (baseUrl @ ''/commits/'' @ commitHash
                                       @ ''/changes?api-version=7.1'') authHeader) w1 of
                        (Rejected, w2) \<Rightarrow> (Inl NetworkError, w2)
                      | (Responded changesResponse, w2) \<Rightarrow>
                          (case changes_summary authHeader changesResponse w2 of
                             (Inl e, w3) \<Rightarrow> (Inl e, w3)
                           | (Inr diffContent, w3) \<Rightarrow>
                               azure_commit commitData diffContent w3)))))"

definition azure_baseUrl :: "AzureUrlParts \<Rightarrow> string" where
  "azure_baseUrl parsed =
     ''https://dev.azure.com/'' @ org parsed @ ''/'' @ project parsed
       @ ''/_apis/git/repositories/'' @ repo parsed"

text \<open>The error of line 103.\<close>

definition invalid_azure_url :: error where
  "invalid_azure_url =
     InvalidUrl
       ''Invalid Azure DevOps repository URL. Format should be https://dev.azure.com/{org}/{project}/_git/{repo}''"

definition fetchAzureCommit ::
  "platform \<Rightarrow> string \<Rightarrow> string \<Rightarrow> string \<Rightarrow> world \<Rightarrow> (error + Commit) \<times> world" where
  "fetchAzureCommit pf repoUrl commitHash token w =
     (case parseAzureUrl pf repoUrl of
        None \<Rightarrow> (Inl invalid_azure_url, w)
      | Some parsed \<Rightarrow>
          (let baseUrl = azure_baseUrl parsed;
               authHeader = ''Basic '' @ btoa pf ('':'' @ token)
           in case azure_try baseUrl authHeader commitHash w of
                (Inl e, w1) \<Rightarrow> (Inl e, console_error ''Azure Fetch Error:'' w1)
              | (Inr c, w1) \<Rightarrow> (Inr c, w1)))"

subsection \<open>fetchAzureRepositories\<close>

record AzureRepository =
  repository_id :: string
  name :: string
  webUrl :: string
  project_name :: string

text \<open>\<^verbatim>\<open>s.trim()\<close>: white space and line terminators are removed at both ends.\<close>

definition is_space :: "char \<Rightarrow> bool" where
  "is_space c = (c \<in> set [CHR 0x09, CHR 0x0A, CHR 0x0B, CHR 0x0C, CHR 0x0D, CHR 0x20, CHR 0xA0])"

definition trim :: "string \<Rightarrow> string" where
  "trim s = rev (dropWhile is_space (rev (dropWhile is_space s)))"

text \<open>
  The first group of the leftmost match of \<^verbatim>\<open>/dev\.azure\.com\/([^/]+)/\<close>: the
  characters after the first \<^verbatim>\<open>dev.azure.com/\<close> that is followed by a character other
  than \<^verbatim>\<open>/\<close>, up to the next \<^verbatim>\<open>/\<close> (the group is greedy, and nothing follows it in
  the pattern).
\<close>

fun match_dev_azure :: "string \<Rightarrow> string option" where
  "match_dev_azure [] = None"
| "match_dev_azure (x # xs) =
     (let g = takeWhile (\<lambda>c. c \<noteq> CHR ''/'') (drop 14 (x # xs))
      in if prefix ''dev.azure.com/'' (x # xs) \<and> g \<noteq> [] then Some g
         else match_dev_azure xs)"

text \<open>
  The first group of the leftmost match of \<^verbatim>\<open>/([^.]+)\.visualstudio\.com/\<close>. A match
  that starts at a position takes all the characters up to the next dot (a shorter
  group is followed by a character that is not a dot), and that dot must start
  \<^verbatim>\<open>.visualstudio.com\<close>.
\<close>

fun match_visualstudio :: "string \<Rightarrow> string option" where
  "match_visualstudio [] = None"
| "match_visualstudio (x # xs) =
     (let g = takeWhile (\<lambda>c. c \<noteq> CHR ''.'') (x # xs)
      in if g \<noteq> [] \<and> prefix ''.visualstudio.com'' (dropWhile (\<lambda>c. c \<noteq> CHR ''.'') (x # xs))
         then Some g
         else match_visualstudio xs)"

definition repositories_baseUrl :: "string \<Rightarrow> string" where
  "repositories_baseUrl orgInput =
     (let cleanInput = trim orgInput
      in if includes_str cleanInput ''dev.azure.com''
         then ''https://dev.azure.com/''
                @ (case match_dev_azure cleanInput of Some g \<Rightarrow> g | None \<Rightarrow> cleanInput)
         else if includes_str cleanInput ''visualstudio.com''
         then ''https://''
                @ (case match_visualstudio cleanInput of Some g \<Rightarrow> g | None \<Rightarrow> cleanInput)
                @ ''.visualstudio.com''
         else ''https://dev.azure.com/'' @ cleanInput)"

text \<open>
  \<^verbatim>\<open>xs.sort(compare)\<close> is a stable sort: an element goes before the first element of
  the sorted rest that it does not compare greater than. For a comparison that is a
  total preorder every stable sort returns this list.
\<close>

fun insert_sorted :: "('a \<Rightarrow> 'a \<Rightarrow> int) \<Rightarrow> 'a \<Rightarrow> 'a list \<Rightarrow> 'a list" where
  "insert_sorted compare x [] = [x]"
| "insert_sorted compare x (y # ys) =
     (if compare x y \<le> 0 then x # y # ys else y # insert_sorted compare x ys)"

fun sort_with :: "('a \<Rightarrow> 'a \<Rightarrow> int) \<Rightarrow> 'a list \<Rightarrow> 'a list" where
  "sort_with compare [] = []"
| "sort_with compare (x # xs) = insert_sorted compare x (sort_with compare xs)"

definition to_repository :: "RepositoryJson \<Rightarrow> AzureRepository" where
  "to_repository r =
     \<lparr>repository_id = json_id r, name = json_name r, webUrl = json_webUrl r,
      project_name = json_project_name r\<rparr>"

text \<open>The body of the \<^verbatim>\<open>try\<close> (lines 70 to 88).\<close>

definition repositories_try ::
  "platform \<Rightarrow> string \<Rightarrow> string \<Rightarrow> world \<Rightarrow> (error + AzureRepository list) \<times> world" where
  "repositories_try pf baseUrl authHeader w =
     (case fetch (auth_request (baseUrl @ ''/_apis/git/repositories?api-version=7.1'')
                    authHeader) w of
        (Rejected, w1) \<Rightarrow> (Inl NetworkError, w1)
      | (Responded response, w1) \<Rightarrow>
          (if \<not> ok response
           then (if status response = 401
                 then (Inl (Unauthorized
                         ''Unauthorized. Please check your Personal Access Token (PAT).''), w1)
                 else if status response = 404
                 then (Inl (NotFound (''Organization not found at '' @ baseUrl)), w1)
                 else (Inl (ProviderError ''Failed to fetch repositories.''), w1))
           else (case body_json response of
                   None \<Rightarrow> (Inl SyntaxError, w1)
                 | Some (RepositoriesJson rs) \<Rightarrow>
                     (Inr (sort_with (\<lambda>a b. localeCompare pf (name a) (name b))
                             (map to_repository rs)), w1)
                 | Some _ \<Rightarrow> (Inl TypeError, w1))))"

definition fetchAzureRepositories ::
  "platform \<Rightarrow> string \<Rightarrow> string \<Rightarrow> world \<Rightarrow> (error + AzureRepository list) \<times> world" where
  "fetchAzureRepositories pf orgInput token w =
     (let baseUrl = repositories_baseUrl orgInput;
          authHeader = ''Basic '' @ btoa pf ('':'' @ token)
      in case repositories_try pf baseUrl authHeader w of
           (Inl e, w1) \<Rightarrow> (Inl e, console_error ''Azure Repo List Error:'' w1)
         | (Inr repos, w1) \<Rightarrow> (Inr repos, w1))"

section \<open>The GitHub client\<close>

text \<open>
  The groups of the leftmost match of \<^verbatim>\<open>/github\.com\/([^/]+)\/([^/]+)/\<close>. At a
  position the pattern matches when \<^verbatim>\<open>github.com/\<close> stands there, followed by one or
  more characters other than \<^verbatim>\<open>/\<close>, a \<^verbatim>\<open>/\<close>, and one or more characters other than
  \<^verbatim>\<open>/\<close>. Both groups are greedy: the first runs to the next \<^verbatim>\<open>/\<close> (a shorter one is
  not followed by \<^verbatim>\<open>/\<close>), the second to the next \<^verbatim>\<open>/\<close> or to the end.
\<close>

definition github_match_here :: "string \<Rightarrow> (string \<times> string) option" where
  "github_match_here s =
     (if prefix ''github.com/'' s
      then (let r = drop 11 s;
                g1 = takeWhile (\<lambda>c. c \<noteq> CHR ''/'') r;
                r1 = dropWhile (\<lambda>c. c \<noteq> CHR ''/'') r;
                g2 = takeWhile (\<lambda>c. c \<noteq> CHR ''/'') (drop 1 r1)
            in if g1 \<noteq> [] \<and> r1 \<noteq> [] \<and> g2 \<noteq> [] then Some (g1, g2) else None)
      else None)"

fun github_match :: "string \<Rightarrow> (string \<times> string) option" where
  "github_match [] = None"
| "github_match (x # xs) =
     (case github_match_here (x # xs) of Some m \<Rightarrow> Some m | None \<Rightarrow> github_match xs)"

definition github_file_block :: "GitHubFile \<Rightarrow> string" where
  "github_file_block f =
     ''File: '' @ filename f @ '' ('' @ file_status f @ '')\<newline>''
       @ or_else (patch f) ''[Binary or Large File]''"

definition github_request :: "string \<Rightarrow> string \<Rightarrow> string \<Rightarrow> string option \<Rightarrow> request" where
  "github_request owner repo_name commitHash token =
     \<lparr>req_url = ''https://api.github.com/repos/'' @ owner @ ''/'' @ repo_name @ ''/commits/''
                  @ commitHash,
      req_headers = (''Accept'', ''application/vnd.github.v3+json'')
         # (if truthy token then [(''Authorization'', ''token '' @ or_else token [])] else [])\<rparr>"

text \<open>The body of the \<^verbatim>\<open>try\<close>. A body of another shape has no \<^verbatim>\<open>files\<close> and no
  \<^verbatim>\<open>sha\<close>: the identifier is drawn and \<^verbatim>\<open>substring\<close> throws.\<close>

definition github_try :: "request \<Rightarrow> world \<Rightarrow> (error + Commit) \<times> world" where
  "github_try rq w =
     (case fetch rq w of
        (Rejected, w1) \<Rightarrow> (Inl NetworkError, w1)
      | (Responded response, w1) \<Rightarrow>
          (if \<not> ok response
           then (case body_json response of
                   None \<Rightarrow> (Inl SyntaxError, w1)
                 | Some err \<Rightarrow>
                     (Inl (ProviderError (or_else (error_message (Some err))
                                            ''Failed to fetch commit from GitHub'')), w1))
           else (case body_json response of
                   None \<Rightarrow> (Inl SyntaxError, w1)
                 | Some (GitHubJson data) \<Rightarrow>
                     (let fullDiff = (case files data of
                                        None \<Rightarrow> []
                                      | Some fs \<Rightarrow>
                                          join ''\<newline>\<newline>'' (map github_file_block fs));
                          (uuid, w2) = randomUUID w1
                      in (Inr \<lparr>commit_id = uuid, hash = take 7 (sha data),
                                message = commit_message data, diff = fullDiff,
                                author = Some (commit_author_name data),
                                date = Some (commit_author_date data),
                                source = GITHUB\<rparr>, w2))
                 | Some _ \<Rightarrow> (let (uuid, w2) = randomUUID w1 in (Inl TypeError, w2)))))"

definition fetchGitHubCommit ::
  "string \<Rightarrow> string \<Rightarrow> string option \<Rightarrow> world \<Rightarrow> (error + Commit) \<times> world" where
  "fetchGitHubCommit repoUrl commitHash token w =
     (case github_match repoUrl of
        None \<Rightarrow> (Inl (InvalidUrl ''Invalid GitHub repository URL''), w)
      | Some (owner, repo_name) \<Rightarrow>
          (case github_try (github_request owner repo_name commitHash token) w of
             (Inl e, w1) \<Rightarrow> (Inl e, console_error ''GitHub Fetch Error:'' w1)
           | (Inr c, w1) \<Rightarrow> (Inr c, w1)))"

section \<open>The documentation generator (geminiService.ts)\<close>

text \<open>The decimal digits of a number, as a template literal prints it.\<close>

fun show_nat :: "nat \<Rightarrow> string" where
  "show_nat n =
     (if n < 10 then [char_of (48 + n)] else show_nat (n div 10) @ [char_of (48 + n mod 10)])"

definition commit_block :: "nat \<Rightarrow> Commit \<Rightarrow> string" where
  "commit_block i c =
     ''\<newline>--- COMMIT '' @ show_nat (i + 1) @ '' ---\<newline>''
     @ ''Hash: '' @ hash c @ ''\<newline>''
     @ ''Message: '' @ message c @ ''\<newline>''
     @ ''Author: '' @ or_else (author c) ''Unknown'' @ ''\<newline>''
     @ ''Date: '' @ or_else (date c) ''Unknown'' @ ''\<newline>''
     @ ''Diff/Changes:\<newline>''
     @ take 15000 (diff c) @ '' \<newline>''
     @ ''(truncated if too long)\<newline>''
     @ ''-----------------------\<newline>''"

definition commitContext :: "Commit list \<Rightarrow> string" where
  "commitContext cs =
     join ''\<newline>'' (map (\<lambda>(i, c). commit_block i c) (enumerate 0 cs))"

definition taskDescription :: "GenerationConfig \<Rightarrow> string" where
  "taskDescription config =
     ''\<newline>You are a world-class Technical Writer. Your task is to write comprehensive, developer-friendly documentation for a software feature based on the provided git commits.\<newline>''
     @ ''The documentation should be in Markdown format.\<newline>  ''
     @ (if truthy (previousDocContent config)
        then ''\<newline>\<newline>IMPORTANT: You have been provided with an EXISTING DOCUMENTATION file. \<newline>''
             @ ''Your goal is to UPDATE this existing documentation to reflect the changes introduced by the new commits.\<newline>''
             @ ''Maintain the style and structure of the original document where possible, but add new sections or modify existing ones as needed.\<newline>    ''
        else ''\<newline>\<newline>Since no previous documentation was provided, create a brand new documentation file.\<newline>''
             @ ''Structure it with the following sections:\<newline>''
             @ ''1. **Title**: A clear, concise title for the feature/change.\<newline>''
             @ ''2. **Overview**: High-level summary of what changed and why.\<newline>''
             @ ''3. **Key Changes**: Bullet points of technical details.\<newline>''
             @ ''4. **Usage**: Code examples or instructions on how to use the new feature.\<newline>''
             @ ''5. **Configuration/Setup**: (If applicable)\<newline>    '')"

definition prompt :: "Commit list \<Rightarrow> GenerationConfig \<Rightarrow> string" where
  \<open>prompt cs config =
     ''\<newline>'' @ taskDescription config @ ''\<newline>\<newline>''
     @ ''User Provided Extra Context:\<newline>''
     @ ''"'' @ or_else (Some (extraInfo config)) ''N/A'' @ ''"\<newline>\<newline>''
     @ ''User Provided Setup Instructions (incorporate this exactly if present):\<newline>''
     @ ''"'' @ or_else (Some (setupInstructions config)) ''N/A'' @ ''"\<newline>\<newline>''
     @ ''Previous Documentation Content:\<newline>''
     @ (if truthy (previousDocContent config)
        then ''```markdown\<newline>'' @ or_else (previousDocContent config) [] @ ''\<newline>```''
        else ''None'')
     @ ''\<newline>\<newline>Commits to Process:\<newline>''
     @ commitContext cs
     @ ''\<newline>\<newline>Output the final Markdown only. Do not wrap in JSON.\<newline>''\<close>

text \<open>
  The \<^verbatim>\<open>try\<close> holds the call only; the message of the thrown object is printed by the
  template literal, \<^verbatim>\<open>undefined\<close> when it has none. The temperature \<^verbatim>\<open>0.4\<close> is kept
  in tenths.
\<close>

definition generation_request :: "Commit list \<Rightarrow> GenerationConfig \<Rightarrow> GenerateRequest" where
  "generation_request cs config =
     \<lparr>gen_model = ''gemini-2.5-flash'', gen_contents = prompt cs config,
      gen_systemInstruction =
        ''You are an expert software documentation generator. You are precise, clear, and thorough.'',
      gen_temperature_tenths = 4\<rparr>"

definition generateDocumentation ::
  "Commit list \<Rightarrow> GenerationConfig \<Rightarrow> world \<Rightarrow> string \<times> world" where
  "generateDocumentation cs config w =
     (case generateContent (generation_request cs config) w of
        (Generated text, w1) \<Rightarrow> (or_else text ''# Error: No content generated.'', w1)
      | (Threw msg, w1) \<Rightarrow>
          (''# Generation Failed\<newline>\<newline>An error occurred while communicating with the AI: ''
             @ (case msg of None \<Rightarrow> ''undefined'' | Some m \<Rightarrow> m),
           console_error ''Gemini Generation Error:'' w1))"

section \<open>Notions for the statements\<close>

subsection \<open>The requests of the Azure DevOps client\<close>

text \<open>The three kinds of request the operation sends, named for the statements
  below: for the commit (line 117), for its changes (line 137) and for the content of a
  changed file (line 163).\<close>

definition authorization :: "platform \<Rightarrow> string \<Rightarrow> string" where
  "authorization pf token = ''Basic '' @ btoa pf ('':'' @ token)"

definition commit_request :: "platform \<Rightarrow> AzureUrlParts \<Rightarrow> string \<Rightarrow> string \<Rightarrow> request" where
  "commit_request pf parsed commitHash token =
     auth_request (azure_baseUrl parsed @ ''/commits/'' @ commitHash @ ''?api-version=7.1'')
       (authorization pf token)"

definition changes_request :: "platform \<Rightarrow> AzureUrlParts \<Rightarrow> string \<Rightarrow> string \<Rightarrow> request" where
  "changes_request pf parsed commitHash token =
     auth_request (azure_baseUrl parsed @ ''/commits/'' @ commitHash @ ''/changes?api-version=7.1'')
       (authorization pf token)"

definition content_request :: "platform \<Rightarrow> string \<Rightarrow> Change \<Rightarrow> request" where
  "content_request pf token change = auth_request (url (item change)) (authorization pf token)"

text \<open>The request of fetchAzureRepositories (line 70).\<close>

definition repositories_request :: "platform \<Rightarrow> string \<Rightarrow> string \<Rightarrow> request" where
  "repositories_request pf orgInput token =
     auth_request (repositories_baseUrl orgInput @ ''/_apis/git/repositories?api-version=7.1'')
       (authorization pf token)"

text \<open>The changes whose content is requested (the test of line 159).\<close>

definition fetches_content :: "Change \<Rightarrow> bool" where
  "fetches_content change =
     (changeType change \<in> set [''edit'', ''add''] \<and> \<not> isFolder (item change))"

subsection \<open>Paths\<close>

text \<open>The path with the segments \<open>segs\<close>: each after a \<^verbatim>\<open>/\<close>.\<close>

definition path_of :: "string list \<Rightarrow> string" where
  "path_of segs = concat (map (\<lambda>s. CHR ''/'' # s) segs)"

subsection \<open>The wording of the specification for GitHub addresses\<close>

text \<open>
  The specification speaks of an input with a \<^verbatim>\<open>github.com\<close> segment followed by two
  path parts. Read on the segments of the input (the texts between its \<^verbatim>\<open>/\<close>): some
  segment is \<^verbatim>\<open>github.com\<close> and the two after it are not empty.
\<close>

fun segment_then_two :: "string list \<Rightarrow> bool" where
  "segment_then_two (a # b # c # rest) =
     (a = ''github.com'' \<and> b \<noteq> [] \<and> c \<noteq> [] \<or> segment_then_two (b # c # rest))"
| "segment_then_two _ = False"

definition has_github_segment :: "string \<Rightarrow> bool" where
  "has_github_segment s = segment_then_two (split_on CHR ''/'' s)"

section \<open>A platform and worlds for the examples\<close>

text \<open>A world in which every request is rejected and every generation fails; the
  examples below override what they need.\<close>

definition silent_world :: world where
  "silent_world =
     \<lparr>network = (\<lambda>n rq. Rejected), requests = [],
      generator = (\<lambda>n rq. Threw None), generations = [],
      uuids = (\<lambda>n. replicate (Suc n) CHR ''u''), uuids_drawn = 0,
      clock = (\<lambda>n. ''2024-05-01T10:00:00.000Z''), clock_reads = 0,
      console = []\<rparr>"

definition example_commit :: "string \<Rightarrow> Commit" where
  "example_commit i =
     \<lparr>commit_id = i, hash = ''manual'', message = ''m'', diff = ''d'', author = None,
      date = None, source = MANUAL\<rparr>"

subsection \<open>An instance of the platform\<close>

text \<open>
  The examples need a platform. \<open>simple_URL\<close> reads an address of the plain form
  \<^verbatim>\<open>https://host/path\<close> (no port, credentials, query or fragment, nothing to
  normalise), on which it reports what the constructor reports; \<open>base64\<close> is the
  encoding of RFC 4648 on a string of bytes; \<open>caseless_compare\<close> orders two names by
  their letters without regard to case and, between names that differ in case only,
  puts the lower-case letter first, as the collation of the usual locales does on
  unaccented letters.
\<close>

definition simple_URL :: "string \<Rightarrow> URL option" where
  "simple_URL s =
     (if prefix ''https://'' s
      then (let r = drop 8 s;
                h = takeWhile (\<lambda>c. c \<noteq> CHR ''/'') r;
                p = dropWhile (\<lambda>c. c \<noteq> CHR ''/'') r
            in if h = [] then None
               else Some \<lparr>hostname = h, pathname = (if p = [] then ''/'' else p)\<rparr>)
      else None)"

definition base64_alphabet :: string where
  "base64_alphabet = ''ABCDEFGHIJKLMNOPQRSTUVWXYZabcdefghijklmnopqrstuvwxyz0123456789+/''"

fun base64 :: "nat list \<Rightarrow> string" where
  "base64 [] = []"
| "base64 [a] =
     [base64_alphabet ! (a div 4), base64_alphabet ! ((a mod 4) * 16), CHR ''='', CHR ''='']"
| "base64 [a, b] =
     [base64_alphabet ! (a div 4), base64_alphabet ! ((a mod 4) * 16 + b div 16),
      base64_alphabet ! ((b mod 16) * 4), CHR ''='']"
| "base64 (a # b # c # rest) =
     [base64_alphabet ! (a div 4), base64_alphabet ! ((a mod 4) * 16 + b div 16),
      base64_alphabet ! ((b mod 16) * 4 + c div 64), base64_alphabet ! (c mod 64)]
     @ base64 rest"

definition lower_code :: "char \<Rightarrow> nat" where
  "lower_code c =
     (let n = of_char c in if 65 \<le> n \<and> n \<le> 90 then n + 32 else (n::nat))"

definition case_code :: "char \<Rightarrow> nat" where
  "case_code c = (let n = (of_char c :: nat) in if 65 \<le> n \<and> n \<le> 90 then 1 else 0)"

definition caseless_compare :: "string \<Rightarrow> string \<Rightarrow> int" where
  "caseless_compare a b =
     (if map lower_code a < map lower_code b then -1
      else if map lower_code b < map lower_code a then 1
      else if map case_code a < map case_code b then -1
      else if map case_code b < map case_code a then 1
      else 0)"

definition example_platform :: platform where
  "example_platform =
     \<lparr>new_URL = simple_URL, btoa = (\<lambda>s. base64 (map of_char s)),
      localeCompare = caseless_compare\<rparr>"

text \<open>A world whose network gives the answers of a list, in their order, and rejects
  every request after them.\<close>

definition scripted_world :: "outcome list \<Rightarrow> world" where
  "scripted_world answers =
     silent_world\<lparr>network := (\<lambda>n rq. if n < length answers then answers ! n else Rejected)\<rparr>"

definition json_response :: "nat \<Rightarrow> json \<Rightarrow> response" where
  "json_response st j = \<lparr>status = st, body_text = None, body_json = Some j\<rparr>"

definition text_response :: "nat \<Rightarrow> string \<Rightarrow> response" where
  "text_response st t = \<lparr>status = st, body_text = Some t, body_json = None\<rparr>"

definition example_commit_data :: AzureCommitData where
  "example_commit_data =
     \<lparr>commitId = ''0123456789abcdef'', comment = ''Fix parser'',
      commit_author = Some \<lparr>author_name = Some ''Ada'', author_date = Some ''2024-04-30''\<rparr>\<rparr>"

definition example_change :: "string \<Rightarrow> string \<Rightarrow> Change" where
  "example_change p t =
     \<lparr>item = \<lparr>path = p, url = ''https://dev.azure.com/items'' @ p, isFolder = False\<rparr>,
      changeType = t\<rparr>"

definition example_repository :: "string \<Rightarrow> RepositoryJson" where
  "example_repository n =
     \<lparr>json_id = ''id-'' @ n, json_name = n,
      json_webUrl = ''https://dev.azure.com/contoso/web/_git/'' @ n,
      json_project_name = ''web''\<rparr>"

section \<open>The commit store: adding and removing\<close>

lemma add_all_append: "add_all cs st = st @ cs"
  by (induction cs arbitrary: st) (simp_all add: handleAddCommit_def)

lemma remove_absent: "i \<notin> commit_id ` set st \<Longrightarrow> handleRemoveCommit i st = st"
  unfolding handleRemoveCommit_def by (induction st) auto

lemma remove_present:
  assumes "distinct (map commit_id (xs @ c # ys))"
  shows "handleRemoveCommit (commit_id c) (xs @ c # ys) = xs @ ys"
proof -
  from assms have "commit_id c \<notin> commit_id ` set xs" and "commit_id c \<notin> commit_id ` set ys"
    by auto
  then have "handleRemoveCommit (commit_id c) xs = xs"
    and "handleRemoveCommit (commit_id c) ys = ys"
    by (simp_all add: remove_absent)
  then show ?thesis
    by (simp add: handleRemoveCommit_def)
qed

text \<open>
  Claim C8. The identifiers of the commits of a store are distinct (each is drawn from
  \<^verbatim>\<open>crypto.randomUUID()\<close>). When the commits \<open>xs @ c # ys\<close> are added to the empty
  store and \<open>c\<close> is then removed by its identifier, the store holds \<open>xs @ ys\<close>: one
  commit fewer, the others in their order. Removing an identifier that no commit of
  the store has leaves the store as it is.
\<close>

theorem store_add_then_remove:
  "(distinct (map commit_id (xs @ c # ys)) \<longrightarrow>
      handleRemoveCommit (commit_id c) (add_all (xs @ c # ys) []) = xs @ ys
      \<and> length (handleRemoveCommit (commit_id c) (add_all (xs @ c # ys) []))
          = length (xs @ c # ys) - 1)
   \<and> (i \<notin> commit_id ` set st \<longrightarrow> handleRemoveCommit i st = st)"
  by (simp add: add_all_append remove_present remove_absent)

theorem store_add_then_remove_witness:
  "distinct (map commit_id ([example_commit ''a''] @ example_commit ''b'' # [example_commit ''c'']))
   \<and> handleRemoveCommit ''b''
        (add_all [example_commit ''a'', example_commit ''b'', example_commit ''c''] [])
       = [example_commit ''a'', example_commit ''c'']
   \<and> ''z'' \<notin> commit_id ` set [example_commit ''a'', example_commit ''b'']
   \<and> handleRemoveCommit ''z'' [example_commit ''a'', example_commit ''b'']
       = [example_commit ''a'', example_commit ''b'']"
  using store_add_then_remove [of "[example_commit ''a'']" "example_commit ''b''"
      "[example_commit ''c'']" "''z''" "[example_commit ''a'', example_commit ''b'']"]
  by (simp add: example_commit_def)

section \<open>Manual entry\<close>

text \<open>
  Claim C9, as the code has it. A manual entry with a non-empty diff appends one commit
  to the store: its \<open>author\<close> is absent, its \<open>date\<close> is present and is the time of the
  entry, its \<open>hash\<close> is \<^verbatim>\<open>manual\<close>, and an empty message is replaced by
  \<^verbatim>\<open>Manual Diff Entry\<close>.
\<close>

theorem manual_commit_fields:
  assumes "manualDiff m \<noteq> []"
  shows "\<exists>c. commits (fst (handleManualAdd m w)) = commits m @ [c]
           \<and> author c = None
           \<and> date c = Some (clock w (clock_reads w))
           \<and> hash c = ''manual''
           \<and> message c = (if manualMessage m = [] then ''Manual Diff Entry'' else manualMessage m)
           \<and> diff c = manualDiff m
           \<and> source c = MANUAL"
  using assms
  by (simp add: handleManualAdd_def randomUUID_def toISOString_now_def handleAddCommit_def
      or_else_def)

theorem manual_commit_fields_witness:
  "manualDiff \<lparr>commits = [], manualDiff = ''+ line'', manualMessage = []\<rparr> \<noteq> []
   \<and> (\<exists>c. commits (fst (handleManualAdd
              \<lparr>commits = [], manualDiff = ''+ line'', manualMessage = []\<rparr> silent_world)) = [c]
          \<and> author c = None
          \<and> date c = Some ''2024-05-01T10:00:00.000Z''
          \<and> hash c = ''manual''
          \<and> message c = ''Manual Diff Entry'')"
  using manual_commit_fields [of "\<lparr>commits = [], manualDiff = ''+ line'', manualMessage = []\<rparr>"
      silent_world]
  by (auto simp add: silent_world_def)

text \<open>The claim as the specification words it (the \<open>date\<close> of a manual entry is
  absent) fails on the entry of the diff \<^verbatim>\<open>+ line\<close>.\<close>

theorem manual_commit_date_counterexample:
  "date (last (commits (fst (handleManualAdd
      \<lparr>commits = [], manualDiff = ''+ line'', manualMessage = []\<rparr> silent_world)))) \<noteq> None"
  by (simp add: handleManualAdd_def randomUUID_def toISOString_now_def handleAddCommit_def
      silent_world_def)

section \<open>The diff of an Azure commit\<close>

lemma process_change_prefix: "prefix d (fst (process_change a c (d, w)))"
  by (simp add: process_change_def fetch_def Let_def split: outcome.splits option.splits)

lemma process_changes_prefix: "prefix d (fst (process_changes a cs (d, w)))"
proof (induction cs arbitrary: d w)
  case Nil
  then show ?case by simp
next
  case (Cons c cs)
  obtain d1 w1 where s: "process_change a c (d, w) = (d1, w1)"
    by (cases "process_change a c (d, w)")
  have "prefix d d1"
    using process_change_prefix [of d a c w] s by simp
  moreover have "prefix d1 (fst (process_changes a cs (d1, w1)))"
    by (rule Cons.IH)
  ultimately show ?case
    using s by (auto intro: prefix_order.trans)
qed

lemma changes_summary_header:
  assumes h: "changes_summary a r w = (Inr d, w1)"
  shows "prefix ''## Changes Summary\<newline>'' d"
proof (cases "ok r")
  case False
  with h show ?thesis by (auto simp add: changes_summary_def)
next
  case True
  with h obtain j where j: "body_json r = Some j"
    by (cases "body_json r") (auto simp add: changes_summary_def)
  let ?cs = "case j of ChangesJson cs \<Rightarrow> cs | _ \<Rightarrow> []"
  obtain d2 w2 where p: "process_changes a ?cs (''## Changes Summary\<newline>'', w) = (d2, w2)"
    by (cases "process_changes a ?cs (''## Changes Summary\<newline>'', w)")
  have "prefix ''## Changes Summary\<newline>'' d2"
    using process_changes_prefix [of "''## Changes Summary\<newline>''" a ?cs w] p by simp
  moreover have "d = d2 \<or> d = d2 @ ''No file changes found in this commit.''"
    using h True j p by (auto simp add: changes_summary_def Let_def split: if_splits)
  ultimately show ?thesis by auto
qed

lemma azure_commit_diff: "azure_commit j d w = (Inr c, w1) \<Longrightarrow> diff c = d"
  by (auto simp add: azure_commit_def randomUUID_def split: json.splits)

lemma azure_try_header:
  assumes "azure_try b a h w = (Inr c, w1)"
  shows "prefix ''## Changes Summary\<newline>'' (diff c)"
  using assms
  by (auto simp add: azure_try_def fetch_def
      split: outcome.splits if_splits option.splits prod.splits sum.splits
      dest!: azure_commit_diff changes_summary_header)

lemma example_parse:
  "parseAzureUrl example_platform ''https://dev.azure.com/contoso/web/_git/api''
     = Some \<lparr>org = ''contoso'', project = ''web'', repo = ''api''\<rparr>"
  by (simp add: parseAzureUrl_def example_platform_def simple_URL_def endsWith_def
      suffix_to_prefix at_index_def truthy_def or_else_def Let_def)

lemmas azure_eval =
  fetchAzureCommit_def azure_try_def fetch_def scripted_world_def silent_world_def
  json_response_def text_response_def ok_def changes_summary_def azure_commit_def
  randomUUID_def example_commit_data_def example_change_def process_change_def
  file_header_def file_content_block_def auth_request_def azure_baseUrl_def Let_def

text \<open>
  Claim C10. The diff of every commit that fetchAzureCommit returns begins with the
  line \<^verbatim>\<open>## Changes Summary\<close>: whether the list of changes was retrieved or not, was
  empty or not, and whatever became of the requests for the contents.
\<close>

theorem azure_diff_header:
  assumes "fst (fetchAzureCommit pf repoUrl commitHash token w) = Inr c"
  shows "prefix ''## Changes Summary\<newline>'' (diff c)"
proof (cases "parseAzureUrl pf repoUrl")
  case None
  with assms show ?thesis by (simp add: fetchAzureCommit_def)
next
  case (Some parsed)
  obtain r w1 where t: "azure_try (azure_baseUrl parsed) (''Basic '' @ btoa pf ('':'' @ token))
      commitHash w = (r, w1)"
    by (cases "azure_try (azure_baseUrl parsed) (''Basic '' @ btoa pf ('':'' @ token)) commitHash w")
  with assms Some have "r = Inr c"
    by (cases r) (simp_all add: fetchAzureCommit_def)
  with t show ?thesis by (auto dest: azure_try_header)
qed

theorem azure_diff_header_witness:
  "fst (fetchAzureCommit example_platform ''https://dev.azure.com/contoso/web/_git/api''
          ''0123456789'' ''pat''
          (scripted_world [Responded (json_response 200 (CommitJson example_commit_data)),
                           Responded (json_response 200 (ChangesJson []))]))
     = Inr \<lparr>commit_id = ''u'', hash = ''0123456'', message = ''Fix parser'',
            diff = ''## Changes Summary\<newline>No file changes found in this commit.'',
            author = Some ''Ada'', date = Some ''2024-04-30'', source = AZURE\<rparr>
   \<and> prefix ''## Changes Summary\<newline>''
        ''## Changes Summary\<newline>No file changes found in this commit.''"
proof -
  have h: "fst (fetchAzureCommit example_platform ''https://dev.azure.com/contoso/web/_git/api''
          ''0123456789'' ''pat''
          (scripted_world [Responded (json_response 200 (CommitJson example_commit_data)),
                           Responded (json_response 200 (ChangesJson []))]))
     = Inr \<lparr>commit_id = ''u'', hash = ''0123456'', message = ''Fix parser'',
            diff = ''## Changes Summary\<newline>No file changes found in this commit.'',
            author = Some ''Ada'', date = Some ''2024-04-30'', source = AZURE\<rparr>"
    by (simp add: example_parse azure_eval)
  from azure_diff_header [OF h] h show ?thesis by simp
qed


lemmas azure_requests =
  commit_request_def changes_request_def content_request_def authorization_def

text \<open>
  Claim C2. When the address parses, the request for the commit is answered with a
  success status and the commit's data, and the request for the changes is answered
  with a status that is not a success, the operation returns a commit: its fields are
  those of the data received, and its diff is the header followed by the note that the
  list of changes could not be fetched.
\<close>

theorem azure_changes_failure_tolerated:
  assumes "parseAzureUrl pf repoUrl = Some parsed"
    and "network w (length (requests w)) (commit_request pf parsed commitHash token)
           = Responded commitResponse"
    and "ok commitResponse"
    and "body_json commitResponse = Some (CommitJson cd)"
    and "network w (Suc (length (requests w))) (changes_request pf parsed commitHash token)
           = Responded changesResponse"
    and "\<not> ok changesResponse"
  shows "fst (fetchAzureCommit pf repoUrl commitHash token w)
           = Inr \<lparr>commit_id = uuids w (uuids_drawn w), hash = take 7 (commitId cd),
                  message = comment cd,
                  diff = ''## Changes Summary\<newline>Could not fetch changes list from Azure API.'',
                  author = (case commit_author cd of None \<Rightarrow> None | Some a \<Rightarrow> author_name a),
                  date = (case commit_author cd of None \<Rightarrow> None | Some a \<Rightarrow> author_date a),
                  source = AZURE\<rparr>"
  using assms
  by (simp add: fetchAzureCommit_def azure_try_def fetch_def changes_summary_def
      azure_commit_def randomUUID_def azure_requests Let_def)

theorem azure_changes_failure_tolerated_witness:
  "fst (fetchAzureCommit example_platform ''https://dev.azure.com/contoso/web/_git/api''
          ''0123456789'' ''pat''
          (scripted_world [Responded (json_response 200 (CommitJson example_commit_data)),
                           Responded (json_response 500 OtherJson)]))
     = Inr \<lparr>commit_id = ''u'', hash = ''0123456'', message = ''Fix parser'',
            diff = ''## Changes Summary\<newline>Could not fetch changes list from Azure API.'',
            author = Some ''Ada'', date = Some ''2024-04-30'', source = AZURE\<rparr>"
  using azure_changes_failure_tolerated [of example_platform
      "''https://dev.azure.com/contoso/web/_git/api''"
      "\<lparr>org = ''contoso'', project = ''web'', repo = ''api''\<rparr>"
      "scripted_world [Responded (json_response 200 (CommitJson example_commit_data)),
                       Responded (json_response 500 OtherJson)]"
      "''0123456789''" "''pat''" "json_response 200 (CommitJson example_commit_data)"
      example_commit_data "json_response 500 OtherJson"]
  by (simp add: example_parse scripted_world_def silent_world_def json_response_def ok_def
      example_commit_data_def)

text \<open>
  Claim C3, on the code. A change of type \<^verbatim>\<open>edit\<close> whose content request is answered
  with the status 404 leaves no note in the diff: the block of the file is its header
  and the separator only. The same request rejected by the network leaves the note
  \<^verbatim>\<open>(Could not fetch file content)\<close>. In both cases the operation returns a commit.
\<close>

theorem azure_content_status_not_reported:
  "fst (fetchAzureCommit example_platform ''https://dev.azure.com/contoso/web/_git/api''
          ''0123456789'' ''pat''
          (scripted_world [Responded (json_response 200 (CommitJson example_commit_data)),
                           Responded (json_response 200
                             (ChangesJson [example_change ''/src/a.ts'' ''edit''])),
                           Responded (text_response 404 ''Not Found'')]))
     = Inr \<lparr>commit_id = ''u'', hash = ''0123456'', message = ''Fix parser'',
            diff = ''## Changes Summary\<newline>\<newline>File: /src/a.ts [edit]\<newline>---\<newline>'',
            author = Some ''Ada'', date = Some ''2024-04-30'', source = AZURE\<rparr>
   \<and> fst (fetchAzureCommit example_platform ''https://dev.azure.com/contoso/web/_git/api''
          ''0123456789'' ''pat''
          (scripted_world [Responded (json_response 200 (CommitJson example_commit_data)),
                           Responded (json_response 200
                             (ChangesJson [example_change ''/src/a.ts'' ''edit''])),
                           Rejected]))
     = Inr \<lparr>commit_id = ''u'', hash = ''0123456'', message = ''Fix parser'',
            diff = ''## Changes Summary\<newline>\<newline>File: /src/a.ts [edit]\<newline>(Could not fetch file content)\<newline>---\<newline>'',
            author = Some ''Ada'', date = Some ''2024-04-30'', source = AZURE\<rparr>"
  by (simp add: example_parse azure_eval)

lemma process_change_network: "network (snd (process_change a c (d, w))) = network w"
  by (simp add: process_change_def fetch_def Let_def split: outcome.splits option.splits)

lemma process_change_requests:
  "length (requests (snd (process_change a c (d, w))))
     = length (requests w) + (if fetches_content c then 1 else 0)"
  by (simp add: process_change_def fetch_def fetches_content_def Let_def
      split: outcome.splits option.splits)

lemma process_changes_world:
  "network (snd (process_changes a cs (d, w))) = network w
   \<and> length (requests (snd (process_changes a cs (d, w))))
       = length (requests w) + length (filter fetches_content cs)"
proof (induction cs arbitrary: d w)
  case Nil
  then show ?case by simp
next
  case (Cons c cs)
  obtain d1 w1 where s: "process_change a c (d, w) = (d1, w1)"
    by (cases "process_change a c (d, w)")
  have "network w1 = network w"
    using process_change_network [of a c d w] s by simp
  moreover have "length (requests w1) = length (requests w) + (if fetches_content c then 1 else 0)"
    using process_change_requests [of a c d w] s by simp
  ultimately show ?case
    using Cons.IH [of d1 w1] s by simp
qed

lemma process_changes_append:
  "process_changes a (xs @ ys) dw = process_changes a ys (process_changes a xs dw)"
  by (induction xs arbitrary: dw) simp_all

lemma process_change_content:
  assumes "fetches_content c"
    and "network w (length (requests w)) (auth_request (url (item c)) a) = Responded r"
    and "ok r" and "body_text r = Some t"
  shows "fst (process_change a c (d, w)) = d @ file_header c @ file_content_block t @ ''---\<newline>''"
  using assms by (simp add: process_change_def fetch_def fetches_content_def Let_def)

lemma process_changes_embed:
  assumes el: "fetches_content c"
    and net: "network w (length (requests w) + length (filter fetches_content before))
                (auth_request (url (item c)) a) = Responded r"
    and r: "ok r" "body_text r = Some t"
  shows "\<exists>pre post. fst (process_changes a (before @ c # after) (d, w))
           = pre @ file_header c @ file_content_block t @ ''---\<newline>'' @ post"
proof -
  obtain d1 w1 where b: "process_changes a before (d, w) = (d1, w1)"
    by (cases "process_changes a before (d, w)")
  have w1: "network w1 = network w"
    "length (requests w1) = length (requests w) + length (filter fetches_content before)"
    using process_changes_world [of a before d w] b by simp_all
  obtain d2 w2 where s: "process_change a c (d1, w1) = (d2, w2)"
    by (cases "process_change a c (d1, w1)")
  have d2: "d2 = d1 @ file_header c @ file_content_block t @ ''---\<newline>''"
    using process_change_content [of c w1 a r t d1] el net r w1 s by simp
  have "prefix d2 (fst (process_changes a after (d2, w2)))"
    by (rule process_changes_prefix)
  then obtain post where "fst (process_changes a after (d2, w2)) = d2 @ post"
    by (auto elim: prefixE)
  then have "fst (process_changes a (before @ c # after) (d, w))
      = d1 @ file_header c @ file_content_block t @ ''---\<newline>'' @ post"
    using b s d2 by (simp add: process_changes_append)
  then show ?thesis by blast
qed

lemma changes_summary_embed:
  assumes "ok cr" and "body_json cr = Some (ChangesJson (before @ c # after))"
    and el: "fetches_content c"
    and net: "network w (length (requests w) + length (filter fetches_content before))
                (auth_request (url (item c)) a) = Responded r"
    and r: "ok r" "body_text r = Some t"
  shows "\<exists>pre post w1. changes_summary a cr w
           = (Inr (pre @ file_header c @ file_content_block t @ ''---\<newline>'' @ post), w1)"
proof -
  obtain pre post where e: "fst (process_changes a (before @ c # after) (''## Changes Summary\<newline>'', w))
           = pre @ file_header c @ file_content_block t @ ''---\<newline>'' @ post"
    using process_changes_embed [OF el net r] by blast
  obtain d1 w1 where p: "process_changes a (before @ c # after) (''## Changes Summary\<newline>'', w) = (d1, w1)"
    by (cases "process_changes a (before @ c # after) (''## Changes Summary\<newline>'', w)")
  have "changes_summary a cr w = (Inr d1, w1)"
    using assms(1,2) p by (simp add: changes_summary_def Let_def)
  with e p show ?thesis by auto
qed

text \<open>
  Claim C1. The address parses, the commit and its changes are received, and
  \<open>change\<close> is one of the changes: of type \<^verbatim>\<open>edit\<close> or \<^verbatim>\<open>add\<close>, not a folder. Its
  content request is the request after the two first ones and those for the contents
  of the earlier changes; it is answered with a success status and the text \<open>text\<close>.
  Then the operation returns a commit whose diff holds, after the header of the file,
  the first 5000 characters of the text between two fences, followed by the mark
  \<^verbatim>\<open>... (truncated)\<close> exactly when the text has more than 5000 characters, provided the
  text has fewer than 30000 characters and no NUL character; and otherwise the note
  that the content was skipped.
\<close>

theorem azure_file_content_embedded:
  assumes parse: "parseAzureUrl pf repoUrl = Some parsed"
    and c1: "network w (length (requests w)) (commit_request pf parsed commitHash token)
               = Responded commitResponse"
      "ok commitResponse" "body_json commitResponse = Some (CommitJson cd)"
    and c2: "network w (Suc (length (requests w))) (changes_request pf parsed commitHash token)
               = Responded changesResponse"
      "ok changesResponse"
      "body_json changesResponse = Some (ChangesJson (before @ change # after))"
    and el: "changeType change = ''edit'' \<or> changeType change = ''add''"
      "\<not> isFolder (item change)"
    and c3: "network w (length (requests w) + 2 + length (filter fetches_content before))
               (content_request pf token change) = Responded contentResponse"
      "ok contentResponse" "body_text contentResponse = Some text"
  shows "\<exists>c pre post.
           fst (fetchAzureCommit pf repoUrl commitHash token w) = Inr c
           \<and> diff c = pre @ file_header change
                @ (if length text < 30000 \<and> CHR 0x00 \<notin> set text
                   then ''```\<newline>'' @ take 5000 text
                        @ (if 5000 < length text then ''\<newline>... (truncated)'' else [])
                        @ ''\<newline>```\<newline>''
                   else ''(File too large or binary, content skipped)\<newline>'')
                @ ''---\<newline>'' @ post"
proof -
  let ?a = "authorization pf token"
  let ?w2 = "w\<lparr>requests := requests w @ [commit_request pf parsed commitHash token,
                                          changes_request pf parsed commitHash token]\<rparr>"
  have el': "fetches_content change"
    using el by (auto simp add: fetches_content_def)
  have net: "network ?w2 (length (requests ?w2) + length (filter fetches_content before))
               (auth_request (url (item change)) ?a) = Responded contentResponse"
    using c3(1) by (simp add: content_request_def add.commute add.left_commute)
  obtain pre post w3 where s: "changes_summary ?a changesResponse ?w2
      = (Inr (pre @ file_header change @ file_content_block text @ ''---\<newline>'' @ post), w3)"
    using changes_summary_embed [OF c2(2,3) el' net c3(2,3)] by blast
  have "azure_try (azure_baseUrl parsed) ?a commitHash w
      = azure_commit (CommitJson cd)
          (pre @ file_header change @ file_content_block text @ ''---\<newline>'' @ post) w3"
    using c1 c2(1) s by (simp add: azure_try_def fetch_def azure_requests)
  then have "fst (fetchAzureCommit pf repoUrl commitHash token w)
      = Inr \<lparr>commit_id = uuids w3 (uuids_drawn w3), hash = take 7 (commitId cd),
             message = comment cd,
             diff = pre @ file_header change @ file_content_block text @ ''---\<newline>'' @ post,
             author = (case commit_author cd of None \<Rightarrow> None | Some a \<Rightarrow> author_name a),
             date = (case commit_author cd of None \<Rightarrow> None | Some a \<Rightarrow> author_date a),
             source = AZURE\<rparr>"
    using parse by (simp add: fetchAzureCommit_def azure_commit_def randomUUID_def
        authorization_def Let_def)
  then show ?thesis
    by (simp add: file_content_block_def) blast
qed

theorem azure_file_content_embedded_witness:
  "\<exists>c pre post.
     fst (fetchAzureCommit example_platform ''https://dev.azure.com/contoso/web/_git/api''
            ''0123456789'' ''pat''
            (scripted_world
               [Responded (json_response 200 (CommitJson example_commit_data)),
                Responded (json_response 200
                  (ChangesJson [example_change ''/docs'' ''delete'',
                                example_change ''/src/a.ts'' ''edit''])),
                Responded (text_response 200 (replicate 6000 CHR ''a''))])) = Inr c
     \<and> diff c = pre @ file_header (example_change ''/src/a.ts'' ''edit'')
          @ ''```\<newline>'' @ replicate 5000 CHR ''a'' @ ''\<newline>... (truncated)''
          @ ''\<newline>```\<newline>'' @ ''---\<newline>'' @ post"
  using azure_file_content_embedded [of example_platform
      "''https://dev.azure.com/contoso/web/_git/api''"
      "\<lparr>org = ''contoso'', project = ''web'', repo = ''api''\<rparr>"
      "scripted_world
         [Responded (json_response 200 (CommitJson example_commit_data)),
          Responded (json_response 200
            (ChangesJson [example_change ''/docs'' ''delete'',
                          example_change ''/src/a.ts'' ''edit''])),
          Responded (text_response 200 (replicate 6000 CHR ''a''))]"
      "''0123456789''" "''pat''" "json_response 200 (CommitJson example_commit_data)"
      example_commit_data
      "json_response 200
            (ChangesJson [example_change ''/docs'' ''delete'',
                          example_change ''/src/a.ts'' ''edit''])"
      "[example_change ''/docs'' ''delete'']" "example_change ''/src/a.ts'' ''edit''" "[]"
      "text_response 200 (replicate 6000 CHR ''a'')" "replicate 6000 CHR ''a''"]
  by (simp add: example_parse scripted_world_def silent_world_def json_response_def
      text_response_def ok_def example_change_def fetches_content_def)

section \<open>The list of repositories\<close>

lemma mset_insert_sorted: "mset (insert_sorted cmp x ys) = add_mset x (mset ys)"
  by (induction ys) simp_all

lemma mset_sort_with: "mset (sort_with cmp xs) = mset xs"
  by (induction xs) (simp_all add: mset_insert_sorted)

lemma set_insert_sorted: "set (insert_sorted cmp x ys) = insert x (set ys)"
  by (induction ys) auto

lemma sorted_insert_sorted:
  assumes trans: "\<And>a b c. cmp a b \<le> 0 \<Longrightarrow> cmp b c \<le> 0 \<Longrightarrow> cmp a c \<le> 0"
    and total: "\<And>a b. cmp a b \<le> 0 \<or> cmp b a \<le> 0"
    and "sorted_wrt (\<lambda>a b. cmp a b \<le> 0) ys"
  shows "sorted_wrt (\<lambda>a b. cmp a b \<le> (0::int)) (insert_sorted cmp x ys)"
  using assms(3)
proof (induction ys)
  case Nil
  then show ?case by simp
next
  case (Cons y ys)
  show ?case
  proof (cases "cmp x y \<le> 0")
    case True
    then have "\<forall>z\<in>set ys. cmp x z \<le> 0"
      using Cons.prems trans by auto
    with True Cons.prems show ?thesis by simp
  next
    case False
    then have "cmp y x \<le> 0" using total [of x y] by simp
    with False Cons show ?thesis
      by (auto simp add: set_insert_sorted)
  qed
qed

lemma sorted_sort_with:
  assumes trans: "\<And>a b c. cmp a b \<le> 0 \<Longrightarrow> cmp b c \<le> 0 \<Longrightarrow> cmp a c \<le> 0"
    and total: "\<And>a b. cmp a b \<le> 0 \<or> cmp b a \<le> 0"
  shows "sorted_wrt (\<lambda>a b. cmp a b \<le> (0::int)) (sort_with cmp xs)"
  by (induction xs) (simp_all add: sorted_insert_sorted [OF trans total])

text \<open>
  Claim C7. \<^verbatim>\<open>localeCompare\<close> is a total preorder on names, as a collation is. When the
  request for the repositories is answered with a success status and the list \<open>rs\<close>,
  fetchAzureRepositories returns the repositories of \<open>rs\<close>, each once, in ascending
  order of their names under \<^verbatim>\<open>localeCompare\<close>; for the empty list it returns the
  empty list.
\<close>

theorem repositories_sorted_by_name:
  assumes trans: "\<forall>a b c. localeCompare pf a b \<le> 0 \<and> localeCompare pf b c \<le> 0
                    \<longrightarrow> localeCompare pf a c \<le> 0"
    and total: "\<forall>a b. localeCompare pf a b \<le> 0 \<or> localeCompare pf b a \<le> 0"
    and answer: "network w (length (requests w)) (repositories_request pf orgInput token)
                   = Responded response"
      "ok response" "body_json response = Some (RepositoriesJson rs)"
  shows "\<exists>repos. fst (fetchAzureRepositories pf orgInput token w) = Inr repos
           \<and> sorted_wrt (\<lambda>a b. localeCompare pf (name a) (name b) \<le> 0) repos
           \<and> mset repos = mset (map to_repository rs)
           \<and> (rs = [] \<longrightarrow> repos = [])"
proof -
  let ?cmp = "\<lambda>a b. localeCompare pf (name a) (name b)"
  let ?repos = "sort_with ?cmp (map to_repository rs)"
  have "fst (fetchAzureRepositories pf orgInput token w) = Inr ?repos"
    using answer
    by (simp add: fetchAzureRepositories_def repositories_try_def fetch_def
        repositories_request_def authorization_def Let_def)
  moreover have "sorted_wrt (\<lambda>a b. ?cmp a b \<le> 0) ?repos"
  proof (rule sorted_sort_with)
    fix a b c :: AzureRepository
    assume "?cmp a b \<le> 0" and "?cmp b c \<le> 0"
    then show "?cmp a c \<le> 0" using trans by blast
  next
    fix a b :: AzureRepository
    show "?cmp a b \<le> 0 \<or> ?cmp b a \<le> 0" using total by blast
  qed
  moreover have "mset ?repos = mset (map to_repository rs)"
    by (rule mset_sort_with)
  moreover have "rs = [] \<longrightarrow> ?repos = []"
    by simp
  ultimately show ?thesis by blast
qed

lemma caseless_compare_le:
  "caseless_compare a b \<le> 0
     \<longleftrightarrow> map lower_code a < map lower_code b
         \<or> (map lower_code a = map lower_code b \<and> map case_code a \<le> map case_code b)"
  by (auto simp add: caseless_compare_def)

lemma caseless_compare_trans:
  "caseless_compare a b \<le> 0 \<Longrightarrow> caseless_compare b c \<le> 0 \<Longrightarrow> caseless_compare a c \<le> 0"
  unfolding caseless_compare_le by auto

lemma caseless_compare_total: "caseless_compare a b \<le> 0 \<or> caseless_compare b a \<le> 0"
  unfolding caseless_compare_le by auto

lemma example_repositories: "fst (fetchAzureRepositories example_platform ''contoso'' ''pat''
         (scripted_world [Responded (json_response 200
            (RepositoriesJson [example_repository ''zeta'', example_repository ''alpha'',
                               example_repository ''Beta'']))]))
   = Inr (map to_repository [example_repository ''alpha'', example_repository ''Beta'',
                               example_repository ''zeta''])"
  by (simp add: fetchAzureRepositories_def repositories_try_def fetch_def scripted_world_def
      silent_world_def json_response_def ok_def example_platform_def to_repository_def
      example_repository_def caseless_compare_def lower_code_def case_code_def Let_def)


theorem repositories_sorted_by_name_witness:
  "(\<exists>repos. fst (fetchAzureRepositories example_platform ''contoso'' ''pat''
         (scripted_world [Responded (json_response 200
            (RepositoriesJson [example_repository ''zeta'', example_repository ''alpha'',
                               example_repository ''Beta'']))])) = Inr repos
      \<and> map name repos = [''alpha'', ''Beta'', ''zeta'']
      \<and> sorted_wrt (\<lambda>a b. localeCompare example_platform (name a) (name b) \<le> 0) repos)
   \<and> (\<exists>repos. fst (fetchAzureRepositories example_platform ''contoso'' ''pat''
         (scripted_world [Responded (json_response 200 (RepositoriesJson []))])) = Inr repos
      \<and> repos = [])"
proof -
  have trans: "\<forall>a b c. localeCompare example_platform a b \<le> 0
      \<and> localeCompare example_platform b c \<le> 0 \<longrightarrow> localeCompare example_platform a c \<le> 0"
    using caseless_compare_trans by (auto simp add: example_platform_def)
  have total: "\<forall>a b. localeCompare example_platform a b \<le> 0
      \<or> localeCompare example_platform b a \<le> 0"
    using caseless_compare_total by (simp add: example_platform_def)
  have ok200: "ok (json_response 200 j)" for j
    by (simp add: ok_def json_response_def)
  have body: "body_json (json_response 200 j) = Some j" for j
    by (simp add: json_response_def)
  have net: "network (scripted_world [Responded r]) (length (requests (scripted_world [Responded r])))
      rq = Responded r" for r rq
    by (simp add: scripted_world_def silent_world_def)
  from repositories_sorted_by_name [OF trans total net ok200 body]
  obtain repos where r: "fst (fetchAzureRepositories example_platform ''contoso'' ''pat''
         (scripted_world [Responded (json_response 200
            (RepositoriesJson [example_repository ''zeta'', example_repository ''alpha'',
                               example_repository ''Beta'']))])) = Inr repos"
    "sorted_wrt (\<lambda>a b. localeCompare example_platform (name a) (name b) \<le> 0) repos"
    by blast
  from r(1) have names: "map name repos = [''alpha'', ''Beta'', ''zeta'']"
    unfolding example_repositories by (auto simp add: to_repository_def example_repository_def)
  have first: "\<exists>repos. fst (fetchAzureRepositories example_platform ''contoso'' ''pat''
         (scripted_world [Responded (json_response 200
            (RepositoriesJson [example_repository ''zeta'', example_repository ''alpha'',
                               example_repository ''Beta'']))])) = Inr repos
      \<and> map name repos = [''alpha'', ''Beta'', ''zeta'']
      \<and> sorted_wrt (\<lambda>a b. localeCompare example_platform (name a) (name b) \<le> 0) repos"
    using r(1) names r(2) by (intro exI [of _ repos] conjI)
  from repositories_sorted_by_name [where rs = "[]" and orgInput = "''contoso''"
      and token = "''pat''", OF trans total net ok200 body]
  have second: "\<exists>repos. fst (fetchAzureRepositories example_platform ''contoso'' ''pat''
         (scripted_world [Responded (json_response 200 (RepositoriesJson []))])) = Inr repos
      \<and> repos = []"
    by auto
  from first second show ?thesis by (rule conjI)
qed

section \<open>The documentation generator\<close>

lemma or_else_falsy: "\<not> truthy t \<Longrightarrow> or_else t d = d"
  by (cases t) (auto simp add: truthy_def or_else_def)

lemma generation_thrown:
  assumes "generator w (length (generations w)) (generation_request cs config) = Threw msg"
  shows "fst (generateDocumentation cs config w)
           = ''# Generation Failed''
             @ ''\<newline>\<newline>An error occurred while communicating with the AI: ''
             @ (case msg of None \<Rightarrow> ''undefined'' | Some m \<Rightarrow> m)"
  using assms by (simp add: generateDocumentation_def generateContent_def)

lemma generation_returned:
  assumes "generator w (length (generations w)) (generation_request cs config) = Generated t"
  shows "fst (generateDocumentation cs config w) = or_else t ''# Error: No content generated.''"
  using assms by (simp add: generateDocumentation_def generateContent_def)

text \<open>
  Claim C6. generateDocumentation returns a string in every case: the model has no
  failure to return. When the text-generation call throws an error with the message
  \<open>m\<close>, the string begins with \<^verbatim>\<open># Generation Failed\<close> and contains \<open>m\<close>; it begins so
  for a thrown object without a message too. When the call returns a response that
  carries no text (none, or the empty text), the string is the placeholder
  \<^verbatim>\<open># Error: No content generated.\<close>
\<close>

theorem generation_failure_is_a_document:
  "(generator w (length (generations w)) (generation_request cs config) = Threw (Some m) \<longrightarrow>
      prefix ''# Generation Failed'' (fst (generateDocumentation cs config w))
      \<and> sublist m (fst (generateDocumentation cs config w)))
   \<and> (generator w (length (generations w)) (generation_request cs config) = Threw None \<longrightarrow>
      prefix ''# Generation Failed'' (fst (generateDocumentation cs config w)))
   \<and> (generator w (length (generations w)) (generation_request cs config) = Generated t
        \<and> \<not> truthy t \<longrightarrow>
      fst (generateDocumentation cs config w) = ''# Error: No content generated.'')"
proof (intro conjI impI)
  assume h: "generator w (length (generations w)) (generation_request cs config) = Threw (Some m)"
  show "prefix ''# Generation Failed'' (fst (generateDocumentation cs config w))"
    unfolding generation_thrown [OF h] by (rule prefixI) (rule refl)
  have "sublist m ((''# Generation Failed''
             @ ''\<newline>\<newline>An error occurred while communicating with the AI: '') @ m @ [])"
    by (rule sublist_appendI)
  then show "sublist m (fst (generateDocumentation cs config w))"
    unfolding generation_thrown [OF h] by (simp only: option.case append_Nil2 append_assoc)
next
  assume h: "generator w (length (generations w)) (generation_request cs config) = Threw None"
  show "prefix ''# Generation Failed'' (fst (generateDocumentation cs config w))"
    unfolding generation_thrown [OF h] by (rule prefixI) (rule refl)
next
  assume h: "generator w (length (generations w)) (generation_request cs config) = Generated t
        \<and> \<not> truthy t"
  then have g: "generator w (length (generations w)) (generation_request cs config) = Generated t"
    and f: "\<not> truthy t"
    by blast+
  show "fst (generateDocumentation cs config w) = ''# Error: No content generated.''"
    unfolding generation_returned [OF g] by (rule or_else_falsy [OF f])
qed

theorem generation_failure_is_a_document_witness:
  "prefix ''# Generation Failed''
     (fst (generateDocumentation [example_commit ''a'']
        \<lparr>extraInfo = [], setupInstructions = [], previousDocContent = None\<rparr>
        (silent_world\<lparr>generator := (\<lambda>n rq. Threw (Some ''quota exceeded''))\<rparr>)))
   \<and> sublist ''quota exceeded''
     (fst (generateDocumentation [example_commit ''a'']
        \<lparr>extraInfo = [], setupInstructions = [], previousDocContent = None\<rparr>
        (silent_world\<lparr>generator := (\<lambda>n rq. Threw (Some ''quota exceeded''))\<rparr>)))
   \<and> fst (generateDocumentation [example_commit ''a'']
        \<lparr>extraInfo = [], setupInstructions = [], previousDocContent = None\<rparr>
        (silent_world\<lparr>generator := (\<lambda>n rq. Generated None)\<rparr>))
      = ''# Error: No content generated.''"
  using generation_failure_is_a_document [of
      "silent_world\<lparr>generator := (\<lambda>n rq. Threw (Some ''quota exceeded''))\<rparr>"
      "[example_commit ''a'']"
      "\<lparr>extraInfo = [], setupInstructions = [], previousDocContent = None\<rparr>"
      "''quota exceeded''" None]
    generation_failure_is_a_document [of
      "silent_world\<lparr>generator := (\<lambda>n rq. Generated None)\<rparr>"
      "[example_commit ''a'']"
      "\<lparr>extraInfo = [], setupInstructions = [], previousDocContent = None\<rparr>"
      "[]" None]
  by (simp add: truthy_def)

section \<open>Addresses of Azure DevOps repositories\<close>

lemma split_on_not_Nil: "split_on c s \<noteq> []"
  by (induction s) (auto split: list.splits)

lemma split_on_no_separator: "c \<notin> set s \<Longrightarrow> split_on c s = [s]"
  by (induction s) auto

lemma split_on_append: "split_on c (a @ c # b) = split_on c a @ split_on c b"
proof (induction a)
  case Nil
  then show ?case by simp
next
  case (Cons x a)
  then show ?case
    using split_on_not_Nil [of c a] by (cases "split_on c a") auto
qed

lemma segments_Cons:
  assumes "s \<noteq> []" and "CHR ''/'' \<notin> set s" and "rest = [] \<or> hd rest = CHR ''/''"
  shows "filter (\<lambda>p. p \<noteq> []) (split_on CHR ''/'' (CHR ''/'' # s @ rest))
           = s # filter (\<lambda>p. p \<noteq> []) (split_on CHR ''/'' rest)"
proof (cases rest)
  case Nil
  with assms show ?thesis by (simp add: split_on_no_separator)
next
  case (Cons x r)
  with assms have rest: "rest = CHR ''/'' # r" by simp
  have "split_on CHR ''/'' (s @ CHR ''/'' # r) = [s] @ split_on CHR ''/'' r"
    using assms(2) by (simp add: split_on_append split_on_no_separator del: split_on.simps)
  with assms(1) rest show ?thesis by simp
qed

lemma path_of_shape: "path_of segs = [] \<or> hd (path_of segs) = CHR ''/''"
  by (cases segs) (simp_all add: path_of_def)

lemma segments_path_of:
  assumes "\<forall>s\<in>set segs. s \<noteq> [] \<and> CHR ''/'' \<notin> set s"
  shows "filter (\<lambda>p. p \<noteq> []) (split_on CHR ''/'' (path_of segs)) = segs"
  using assms
proof (induction segs)
  case Nil
  then show ?case by (simp add: path_of_def)
next
  case (Cons s segs)
  have "path_of (s # segs) = CHR ''/'' # s @ path_of segs"
    by (simp add: path_of_def)
  then show ?case
    using Cons segments_Cons [of s "path_of segs"] path_of_shape [of segs] by simp
qed

lemma indexOf_absent: "x \<notin> set xs \<Longrightarrow> indexOf xs x = -1"
  by (induction xs) (auto simp add: Let_def)

lemma parse_without_git:
  assumes "new_URL pf u = Some U" and "''_git'' \<notin> set (split_on CHR ''/'' (pathname U))"
  shows "parseAzureUrl pf u = None"
proof -
  have "indexOf (filter (\<lambda>p. p \<noteq> []) (split_on CHR ''/'' (pathname U))) ''_git'' = -1"
    using assms(2) by (intro indexOf_absent) simp
  then show ?thesis
    using assms(1) by (simp add: parseAzureUrl_def Let_def truthy_def)
qed

lemma parse_segments:
  assumes "new_URL pf u = Some \<lparr>hostname = h, pathname = path_of segs\<rparr>"
    and "\<forall>s\<in>set segs. s \<noteq> [] \<and> CHR ''/'' \<notin> set s"
  shows "parseAzureUrl pf u =
     (let gitIndex = indexOf segs ''_git'';
          after_git = (if gitIndex \<noteq> -1 \<and> gitIndex + 1 < int (length segs)
                       then at_index segs (nat (gitIndex + 1)) else Some []);
          (org_v, project_v, repo_v) =
                 (if endsWith h ''visualstudio.com''
                  then (at_index (split_on CHR ''.'' h) 0, at_index segs 0, after_git)
                  else if h = ''dev.azure.com''
                  then (at_index segs 0, at_index segs 1, after_git)
                  else (Some [], Some [], Some []))
      in if \<not> truthy org_v \<or> \<not> truthy project_v \<or> \<not> truthy repo_v then None
         else Some \<lparr>org = or_else org_v [], project = or_else project_v [],
                    repo = or_else repo_v []\<rparr>)"
  using assms(1) by (simp add: parseAzureUrl_def segments_path_of [OF assms(2)] Let_def)

lemma at_index_simps:
  "at_index [] n = None"
  "at_index (x # xs) 0 = Some x"
  "at_index (x # xs) (Suc n) = at_index xs n"
  by (simp_all add: at_index_def)

lemma not_visualstudio: "\<not> endsWith ''dev.azure.com'' ''visualstudio.com''"
  by (simp add: endsWith_def suffix_to_prefix)

lemma is_visualstudio: "endsWith (o_n @ ''.visualstudio.com'') ''visualstudio.com''"
  unfolding endsWith_def suffix_def by (rule exI [of _ "o_n @ ''.''"]) simp

lemma host_prefix:
  assumes "CHR ''.'' \<notin> set o_n"
  shows "at_index (split_on CHR ''.'' (o_n @ ''.visualstudio.com'')) 0 = Some o_n"
proof -
  have "split_on CHR ''.'' (o_n @ CHR ''.'' # ''visualstudio.com'')
      = [o_n] @ split_on CHR ''.'' ''visualstudio.com''"
    using assms by (simp add: split_on_append split_on_no_separator del: split_on.simps)
  then show ?thesis by (simp add: at_index_def del: split_on.simps)
qed

text \<open>
  Claim C5. \<open>org_n\<close>, \<open>project_n\<close> and \<open>repo_n\<close> are names: not empty and without
  \<^verbatim>\<open>/\<close>; the organization and the project are not called \<^verbatim>\<open>_git\<close> (Azure DevOps
  allows no such name: the names of organizations are made of letters, digits and
  hyphens, and the name of a project does not begin with an underscore). The host and
  the path are those the constructor \<^verbatim>\<open>URL\<close> reports for the address.
  \<^item> On the host \<^verbatim>\<open>dev.azure.com\<close> with the path \<^verbatim>\<open>/org/project/_git/repo\<close>, and on the
    host \<^verbatim>\<open>org.visualstudio.com\<close> with the path \<^verbatim>\<open>/project/_git/repo\<close>, parseAzureUrl
    returns the three names.
  \<^item> On any address whose path has no segment \<^verbatim>\<open>_git\<close>, and on the two forms with the
    path cut after fewer segments than the form has, fetchAzureCommit fails with the
    error of an invalid address and leaves the world as it was: no request was sent.
\<close>

theorem azure_url_parsing:
  assumes names: "org_n \<noteq> [] \<and> CHR ''/'' \<notin> set org_n"
      "project_n \<noteq> [] \<and> CHR ''/'' \<notin> set project_n"
      "repo_n \<noteq> [] \<and> CHR ''/'' \<notin> set repo_n"
    and not_git: "org_n \<noteq> ''_git''" "project_n \<noteq> ''_git''"
  shows "(new_URL pf u = Some \<lparr>hostname = ''dev.azure.com'',
                                pathname = path_of [org_n, project_n, ''_git'', repo_n]\<rparr>
            \<longrightarrow> parseAzureUrl pf u = Some \<lparr>org = org_n, project = project_n, repo = repo_n\<rparr>)
     \<and> (CHR ''.'' \<notin> set org_n
          \<and> new_URL pf u = Some \<lparr>hostname = org_n @ ''.visualstudio.com'',
                                  pathname = path_of [project_n, ''_git'', repo_n]\<rparr>
            \<longrightarrow> parseAzureUrl pf u = Some \<lparr>org = org_n, project = project_n, repo = repo_n\<rparr>)
     \<and> (new_URL pf u = Some U \<and> ''_git'' \<notin> set (split_on CHR ''/'' (pathname U))
            \<longrightarrow> fetchAzureCommit pf u commitHash token w = (Inl invalid_azure_url, w))
     \<and> (k < 4 \<and> new_URL pf u = Some \<lparr>hostname = ''dev.azure.com'',
                     pathname = path_of (take k [org_n, project_n, ''_git'', repo_n])\<rparr>
            \<longrightarrow> fetchAzureCommit pf u commitHash token w = (Inl invalid_azure_url, w))
     \<and> (k < 3 \<and> new_URL pf u = Some \<lparr>hostname = org_n @ ''.visualstudio.com'',
                     pathname = path_of (take k [project_n, ''_git'', repo_n])\<rparr>
            \<longrightarrow> fetchAzureCommit pf u commitHash token w = (Inl invalid_azure_url, w))"
proof (intro conjI impI)
  assume h: "new_URL pf u = Some \<lparr>hostname = ''dev.azure.com'',
                                pathname = path_of [org_n, project_n, ''_git'', repo_n]\<rparr>"
  have "\<forall>s\<in>set [org_n, project_n, ''_git'', repo_n]. s \<noteq> [] \<and> CHR ''/'' \<notin> set s"
    using names by simp
  from parse_segments [OF h this] names not_git
  show "parseAzureUrl pf u = Some \<lparr>org = org_n, project = project_n, repo = repo_n\<rparr>"
    by (simp add: not_visualstudio at_index_simps truthy_def or_else_def Let_def
        numeral_2_eq_2 numeral_3_eq_3)
next
  assume "CHR ''.'' \<notin> set org_n
          \<and> new_URL pf u = Some \<lparr>hostname = org_n @ ''.visualstudio.com'',
                                  pathname = path_of [project_n, ''_git'', repo_n]\<rparr>"
  then have dot: "CHR ''.'' \<notin> set org_n"
    and h: "new_URL pf u = Some \<lparr>hostname = org_n @ ''.visualstudio.com'',
                                  pathname = path_of [project_n, ''_git'', repo_n]\<rparr>"
    by simp_all
  have "\<forall>s\<in>set [project_n, ''_git'', repo_n]. s \<noteq> [] \<and> CHR ''/'' \<notin> set s"
    using names by simp
  from parse_segments [OF h this] names not_git
  show "parseAzureUrl pf u = Some \<lparr>org = org_n, project = project_n, repo = repo_n\<rparr>"
    by (simp add: is_visualstudio host_prefix [OF dot] at_index_simps truthy_def or_else_def
        Let_def numeral_2_eq_2)
next
  assume "new_URL pf u = Some U \<and> ''_git'' \<notin> set (split_on CHR ''/'' (pathname U))"
  then have "parseAzureUrl pf u = None"
    using parse_without_git by blast
  then show "fetchAzureCommit pf u commitHash token w = (Inl invalid_azure_url, w)"
    by (simp add: fetchAzureCommit_def)
next
  assume "k < 4 \<and> new_URL pf u = Some \<lparr>hostname = ''dev.azure.com'',
                     pathname = path_of (take k [org_n, project_n, ''_git'', repo_n])\<rparr>"
  then have k: "k < 4"
    and h: "new_URL pf u = Some \<lparr>hostname = ''dev.azure.com'',
                     pathname = path_of (take k [org_n, project_n, ''_git'', repo_n])\<rparr>"
    by simp_all
  have s: "\<forall>s\<in>set (take k [org_n, project_n, ''_git'', repo_n]). s \<noteq> [] \<and> CHR ''/'' \<notin> set s"
    using names by (auto dest!: in_set_takeD)
  from k have "k = 0 \<or> k = 1 \<or> k = 2 \<or> k = 3" by arith
  then have "parseAzureUrl pf u = None"
    using parse_segments [OF h s] names not_git
    by (auto simp add: not_visualstudio at_index_simps truthy_def Let_def numeral_2_eq_2
        numeral_3_eq_3)
  then show "fetchAzureCommit pf u commitHash token w = (Inl invalid_azure_url, w)"
    by (simp add: fetchAzureCommit_def)
next
  assume "k < 3 \<and> new_URL pf u = Some \<lparr>hostname = org_n @ ''.visualstudio.com'',
                     pathname = path_of (take k [project_n, ''_git'', repo_n])\<rparr>"
  then have k: "k < 3"
    and h: "new_URL pf u = Some \<lparr>hostname = org_n @ ''.visualstudio.com'',
                     pathname = path_of (take k [project_n, ''_git'', repo_n])\<rparr>"
    by simp_all
  have s: "\<forall>s\<in>set (take k [project_n, ''_git'', repo_n]). s \<noteq> [] \<and> CHR ''/'' \<notin> set s"
    using names by (auto dest!: in_set_takeD)
  from k have "k = 0 \<or> k = 1 \<or> k = 2" by arith
  then have "parseAzureUrl pf u = None"
    using parse_segments [OF h s] names not_git
    by (auto simp add: is_visualstudio at_index_simps truthy_def Let_def numeral_2_eq_2)
  then show "fetchAzureCommit pf u commitHash token w = (Inl invalid_azure_url, w)"
    by (simp add: fetchAzureCommit_def)
qed


theorem azure_url_parsing_witness:
  "parseAzureUrl example_platform ''https://dev.azure.com/contoso/web/_git/api''
     = Some \<lparr>org = ''contoso'', project = ''web'', repo = ''api''\<rparr>
   \<and> parseAzureUrl example_platform ''https://contoso.visualstudio.com/web/_git/api''
     = Some \<lparr>org = ''contoso'', project = ''web'', repo = ''api''\<rparr>
   \<and> fetchAzureCommit example_platform ''https://dev.azure.com/contoso/web/api''
        ''0123456789'' ''pat'' silent_world = (Inl invalid_azure_url, silent_world)
   \<and> fetchAzureCommit example_platform ''https://dev.azure.com/contoso/web/_git''
        ''0123456789'' ''pat'' silent_world = (Inl invalid_azure_url, silent_world)
   \<and> fetchAzureCommit example_platform ''https://contoso.visualstudio.com/web''
        ''0123456789'' ''pat'' silent_world = (Inl invalid_azure_url, silent_world)"
  using
    azure_url_parsing [where org_n = "''contoso''" and project_n = "''web''"
      and repo_n = "''api''" and pf = example_platform
      and u = "''https://dev.azure.com/contoso/web/_git/api''"]
    azure_url_parsing [where org_n = "''contoso''" and project_n = "''web''"
      and repo_n = "''api''" and pf = example_platform
      and u = "''https://contoso.visualstudio.com/web/_git/api''"]
    azure_url_parsing [where org_n = "''contoso''" and project_n = "''web''"
      and repo_n = "''api''" and pf = example_platform
      and u = "''https://dev.azure.com/contoso/web/api''"
      and U = "\<lparr>hostname = ''dev.azure.com'', pathname = ''/contoso/web/api''\<rparr>"
      and commitHash = "''0123456789''" and token = "''pat''" and w = silent_world]
    azure_url_parsing [where org_n = "''contoso''" and project_n = "''web''"
      and repo_n = "''api''" and pf = example_platform
      and u = "''https://dev.azure.com/contoso/web/_git''" and k = 3
      and commitHash = "''0123456789''" and token = "''pat''" and w = silent_world]
    azure_url_parsing [where org_n = "''contoso''" and project_n = "''web''"
      and repo_n = "''api''" and pf = example_platform
      and u = "''https://contoso.visualstudio.com/web''" and k = 1
      and commitHash = "''0123456789''" and token = "''pat''" and w = silent_world]
  by (simp add: example_platform_def simple_URL_def path_of_def)

section \<open>Addresses of GitHub repositories\<close>

lemma takeWhile_segment: "c \<notin> set a \<Longrightarrow> takeWhile (\<lambda>x. x \<noteq> c) (a @ c # rest) = a"
  by (induction a) auto

lemma dropWhile_segment: "c \<notin> set a \<Longrightarrow> dropWhile (\<lambda>x. x \<noteq> c) (a @ c # rest) = c # rest"
  by (induction a) auto

lemma takeWhile_last_segment:
  "c \<notin> set a \<Longrightarrow> rest = [] \<or> hd rest = c \<Longrightarrow> takeWhile (\<lambda>x. x \<noteq> c) (a @ rest) = a"
  by (cases rest) (auto simp add: takeWhile_segment)

lemma github_match_here_elsewhere:
  "\<not> prefix ''github.com/'' s \<Longrightarrow> github_match_here s = None"
  unfolding github_match_here_def by (simp only: if_False)

lemma github_match_here_at:
  "github_match_here (''github.com/'' @ r) =
     (let g1 = takeWhile (\<lambda>c. c \<noteq> CHR ''/'') r;
          r1 = dropWhile (\<lambda>c. c \<noteq> CHR ''/'') r;
          g2 = takeWhile (\<lambda>c. c \<noteq> CHR ''/'') (drop 1 r1)
      in if g1 \<noteq> [] \<and> r1 \<noteq> [] \<and> g2 \<noteq> [] then Some (g1, g2) else None)"
  by (simp add: github_match_here_def)

lemma github_match_here_shape:
  assumes "owner \<noteq> []" and "CHR ''/'' \<notin> set owner"
    and "name_n \<noteq> []" and "CHR ''/'' \<notin> set name_n"
    and "rest = [] \<or> hd rest = CHR ''/''"
  shows "github_match_here (''github.com/'' @ owner @ ''/'' @ name_n @ rest) = Some (owner, name_n)"
proof -
  have t1: "takeWhile (\<lambda>c. c \<noteq> CHR ''/'') (owner @ CHR ''/'' # name_n @ rest) = owner"
    using assms(2) by (rule takeWhile_segment)
  have d1: "dropWhile (\<lambda>c. c \<noteq> CHR ''/'') (owner @ CHR ''/'' # name_n @ rest)
      = CHR ''/'' # name_n @ rest"
    using assms(2) by (rule dropWhile_segment)
  have t2: "takeWhile (\<lambda>c. c \<noteq> CHR ''/'') (name_n @ rest) = name_n"
    using assms(4,5) by (rule takeWhile_last_segment)
  have "github_match_here (''github.com/'' @ (owner @ CHR ''/'' # name_n @ rest))
      = Some (owner, name_n)"
    unfolding github_match_here_at using assms(1,3) by (simp add: t1 d1 t2)
  then show ?thesis by simp
qed

lemma github_match_unfold:
  "github_match s =
     (case github_match_here s of
        Some m \<Rightarrow> Some m
      | None \<Rightarrow> (case s of [] \<Rightarrow> None | x # xs \<Rightarrow> github_match xs))"
proof (cases s)
  case Nil
  then show ?thesis by (simp add: github_match_here_def)
next
  case (Cons x xs)
  then show ?thesis by (simp split: option.splits)
qed

lemma no_github_in_scheme:
  assumes "CHR ''/'' \<notin> set v"
  shows "\<not> prefix ''github.com/'' (v @ ''://'' @ t)"
proof
  assume "prefix ''github.com/'' (v @ ''://'' @ t)"
  then obtain z where z: "v @ ''://'' @ t = ''github.com/'' @ z"
    by (auto simp add: prefix_def)
  have "takeWhile (\<lambda>x. x \<noteq> CHR ''/'') ((v @ '':'') @ CHR ''/'' # CHR ''/'' # t) = v @ '':''"
    using assms by (intro takeWhile_segment) simp
  then have "takeWhile (\<lambda>x. x \<noteq> CHR ''/'') (v @ ''://'' @ t) = v @ '':''"
    by simp
  moreover have "takeWhile (\<lambda>x. x \<noteq> CHR ''/'') (''github.com/'' @ z) = ''github.com''"
    by simp
  ultimately have "v @ '':'' = ''github.com''"
    using z by simp
  then have "last (v @ '':'') = last ''github.com''"
    by (rule arg_cong)
  then show False by simp
qed

lemma github_match_after_scheme:
  assumes "CHR ''/'' \<notin> set scheme"
  shows "github_match (scheme @ ''://'' @ t) = github_match t"
  using assms
proof (induction scheme)
  case Nil
  have "github_match_here (CHR '':'' # CHR ''/'' # CHR ''/'' # t) = None"
    and "github_match_here (CHR ''/'' # CHR ''/'' # t) = None"
    and "github_match_here (CHR ''/'' # t) = None"
    by (simp_all add: github_match_here_def)
  then show ?case by simp
next
  case (Cons x scheme)
  then have "CHR ''/'' \<notin> set (x # scheme)" by simp
  then have "\<not> prefix ''github.com/'' ((x # scheme) @ ''://'' @ t)"
    by (rule no_github_in_scheme)
  then have "github_match_here ((x # scheme) @ ''://'' @ t) = None"
    by (rule github_match_here_elsewhere)
  moreover have "github_match (scheme @ ''://'' @ t) = github_match t"
    using Cons by simp
  ultimately show ?case
    by (simp only: append_Cons github_match.simps option.case)
qed

lemma github_match_here_sound:
  assumes "github_match_here t = Some (a, b)"
  shows "\<exists>rest. t = ''github.com/'' @ a @ ''/'' @ b @ rest
           \<and> a \<noteq> [] \<and> CHR ''/'' \<notin> set a \<and> b \<noteq> [] \<and> CHR ''/'' \<notin> set b
           \<and> (rest = [] \<or> hd rest = CHR ''/'')"
proof -
  let ?P = "\<lambda>c. c \<noteq> CHR ''/''"
  from assms have p: "prefix ''github.com/'' t"
    by (auto simp add: github_match_here_def split: if_splits)
  define r where "r = drop 11 t"
  define r1 where "r1 = dropWhile ?P r"
  define r2 where "r2 = drop 1 r1"
  from p have t: "t = ''github.com/'' @ r"
    unfolding r_def by (auto simp add: prefix_def)
  from assms p have ab: "a = takeWhile ?P r" "r1 \<noteq> []" "b = takeWhile ?P r2" "a \<noteq> []" "b \<noteq> []"
    unfolding r_def r1_def r2_def
    by (auto simp add: github_match_here_def Let_def split: if_splits)
  have "hd r1 = CHR ''/''"
    using ab(2) hd_dropWhile [of ?P r] unfolding r1_def by auto
  with ab(2) have r1: "r1 = CHR ''/'' # r2"
    unfolding r2_def by (cases r1) simp_all
  have "r = a @ r1"
    unfolding ab(1) r1_def by simp
  moreover have "r2 = b @ dropWhile ?P r2"
    unfolding ab(3) by simp
  ultimately have "t = ''github.com/'' @ a @ ''/'' @ b @ dropWhile ?P r2"
    using t r1 by simp
  moreover have "CHR ''/'' \<notin> set a"
    unfolding ab(1) by (auto dest: set_takeWhileD)
  moreover have "CHR ''/'' \<notin> set b"
    unfolding ab(3) by (auto dest: set_takeWhileD)
  moreover have "dropWhile ?P r2 = [] \<or> hd (dropWhile ?P r2) = CHR ''/''"
    using hd_dropWhile [of ?P r2] by auto
  ultimately show ?thesis
    using ab(4,5) by blast
qed

lemma github_match_sound:
  assumes "github_match s = Some (a, b)"
  shows "\<exists>pre rest. s = pre @ ''github.com/'' @ a @ ''/'' @ b @ rest
           \<and> a \<noteq> [] \<and> CHR ''/'' \<notin> set a \<and> b \<noteq> [] \<and> CHR ''/'' \<notin> set b
           \<and> (rest = [] \<or> hd rest = CHR ''/'')"
  using assms
proof (induction s)
  case Nil
  then show ?case by simp
next
  case (Cons x xs)
  show ?case
  proof (cases "github_match_here (x # xs)")
    case None
    with Cons.prems have "github_match xs = Some (a, b)" by simp
    with Cons.IH obtain pre rest where "xs = pre @ ''github.com/'' @ a @ ''/'' @ b @ rest
           \<and> a \<noteq> [] \<and> CHR ''/'' \<notin> set a \<and> b \<noteq> [] \<and> CHR ''/'' \<notin> set b
           \<and> (rest = [] \<or> hd rest = CHR ''/'')" by blast
    then have "x # xs = (x # pre) @ ''github.com/'' @ a @ ''/'' @ b @ rest
           \<and> a \<noteq> [] \<and> CHR ''/'' \<notin> set a \<and> b \<noteq> [] \<and> CHR ''/'' \<notin> set b
           \<and> (rest = [] \<or> hd rest = CHR ''/'')" by simp
    then show ?thesis by blast
  next
    case (Some m)
    with Cons.prems have "github_match_here (x # xs) = Some (a, b)" by simp
    from github_match_here_sound [OF this] obtain rest where
      "x # xs = [] @ ''github.com/'' @ a @ ''/'' @ b @ rest
           \<and> a \<noteq> [] \<and> CHR ''/'' \<notin> set a \<and> b \<noteq> [] \<and> CHR ''/'' \<notin> set b
           \<and> (rest = [] \<or> hd rest = CHR ''/'')" by auto
    then show ?thesis by blast
  qed
qed

lemma github_match_later: "github_match xs \<noteq> None \<Longrightarrow> github_match (pre @ xs) \<noteq> None"
  by (induction pre) (auto split: option.splits)

lemma github_match_complete:
  assumes "s = pre @ ''github.com/'' @ a @ ''/'' @ c # rest"
    and "a \<noteq> []" and "CHR ''/'' \<notin> set a" and "c \<noteq> CHR ''/''"
  shows "github_match s \<noteq> None"
proof -
  let ?P = "\<lambda>c. c \<noteq> CHR ''/''"
  have t1: "takeWhile ?P (a @ CHR ''/'' # c # rest) = a"
    using assms(3) by (rule takeWhile_segment)
  have d1: "dropWhile ?P (a @ CHR ''/'' # c # rest) = CHR ''/'' # c # rest"
    using assms(3) by (rule dropWhile_segment)
  have "github_match_here (''github.com/'' @ (a @ CHR ''/'' # c # rest)) \<noteq> None"
    unfolding github_match_here_at using assms(2,4) by (simp add: t1 d1)
  then have "github_match_here (''github.com/'' @ a @ ''/'' @ c # rest) \<noteq> None"
    by simp
  then have "github_match (''github.com/'' @ a @ ''/'' @ c # rest) \<noteq> None"
    by (subst github_match_unfold) (auto split: option.splits)
  then show ?thesis
    unfolding assms(1) by (rule github_match_later)
qed


lemma github_try_requests: "requests (snd (github_try rq w)) = requests w @ [rq]"
  by (simp add: github_try_def fetch_def randomUUID_def Let_def
      split: outcome.splits option.splits json.splits)

lemma fetchGitHubCommit_requests:
  assumes "github_match repoUrl = Some (owner, name_n)"
  shows "requests (snd (fetchGitHubCommit repoUrl commitHash token w))
           = requests w @ [github_request owner name_n commitHash token]"
proof -
  obtain r w1 where t: "github_try (github_request owner name_n commitHash token) w = (r, w1)"
    by (cases "github_try (github_request owner name_n commitHash token) w")
  then have "requests w1 = requests w @ [github_request owner name_n commitHash token]"
    using github_try_requests [of "github_request owner name_n commitHash token" w] by simp
  with assms t show ?thesis
    by (cases r) (simp_all add: fetchGitHubCommit_def console_error_def)
qed

text \<open>
  Claim C4, as the code has it. For the address of a GitHub repository,
  \<^verbatim>\<open>scheme://github.com/owner/repo\<close>, that ends after the name of the repository or goes
  on with a \<^verbatim>\<open>/\<close>, where the owner and the name are not empty and hold none of \<^verbatim>\<open>/\<close>,
  \<^verbatim>\<open>?\<close> and \<^verbatim>\<open>#\<close>, the owner and the name are extracted, and the request is sent for
  them. When the text \<^verbatim>\<open>github.com/\<close> is nowhere in the input followed by a non-empty
  part without \<^verbatim>\<open>/\<close>, a \<^verbatim>\<open>/\<close> and a further character other than \<^verbatim>\<open>/\<close>,
  fetchGitHubCommit fails with the error of an invalid address and leaves the world as
  it was: no request was sent.
\<close>

theorem github_url_parsing:
  "(repoUrl = scheme @ ''://github.com/'' @ owner @ ''/'' @ name_n @ rest
      \<and> CHR ''/'' \<notin> set scheme
      \<and> owner \<noteq> [] \<and> set owner \<inter> {CHR ''/'', CHR ''?'', CHR ''#''} = {}
      \<and> name_n \<noteq> [] \<and> set name_n \<inter> {CHR ''/'', CHR ''?'', CHR ''#''} = {}
      \<and> (rest = [] \<or> hd rest = CHR ''/'')
    \<longrightarrow> github_match repoUrl = Some (owner, name_n)
        \<and> requests (snd (fetchGitHubCommit repoUrl commitHash token w))
            = requests w @ [github_request owner name_n commitHash token])
   \<and> (\<not> (\<exists>pre a c rest. repoUrl = pre @ ''github.com/'' @ a @ ''/'' @ c # rest
             \<and> a \<noteq> [] \<and> CHR ''/'' \<notin> set a \<and> c \<noteq> CHR ''/'')
    \<longrightarrow> fetchGitHubCommit repoUrl commitHash token w
          = (Inl (InvalidUrl ''Invalid GitHub repository URL''), w))"
proof (intro conjI impI)
  assume h: "repoUrl = scheme @ ''://github.com/'' @ owner @ ''/'' @ name_n @ rest
      \<and> CHR ''/'' \<notin> set scheme
      \<and> owner \<noteq> [] \<and> set owner \<inter> {CHR ''/'', CHR ''?'', CHR ''#''} = {}
      \<and> name_n \<noteq> [] \<and> set name_n \<inter> {CHR ''/'', CHR ''?'', CHR ''#''} = {}
      \<and> (rest = [] \<or> hd rest = CHR ''/'')"
  let ?t = "''github.com/'' @ owner @ ''/'' @ name_n @ rest"
  from h have u: "repoUrl = scheme @ ''://'' @ ?t" by simp
  from h have sch: "CHR ''/'' \<notin> set scheme" by blast
  from h have names: "owner \<noteq> []" "CHR ''/'' \<notin> set owner" "name_n \<noteq> []"
    "CHR ''/'' \<notin> set name_n" "rest = [] \<or> hd rest = CHR ''/''"
    by auto
  have "github_match (scheme @ ''://'' @ ?t) = github_match ?t"
    using sch by (rule github_match_after_scheme)
  moreover have "github_match_here ?t = Some (owner, name_n)"
    using names by (rule github_match_here_shape)
  then have "github_match ?t = Some (owner, name_n)"
    by (subst github_match_unfold) (simp only: option.case)
  ultimately show m: "github_match repoUrl = Some (owner, name_n)"
    unfolding u by (rule trans)
  show "requests (snd (fetchGitHubCommit repoUrl commitHash token w))
            = requests w @ [github_request owner name_n commitHash token]"
    by (rule fetchGitHubCommit_requests [OF m])
next
  assume n: "\<not> (\<exists>pre a c rest. repoUrl = pre @ ''github.com/'' @ a @ ''/'' @ c # rest
             \<and> a \<noteq> [] \<and> CHR ''/'' \<notin> set a \<and> c \<noteq> CHR ''/'')"
  have "github_match repoUrl = None"
  proof (cases "github_match repoUrl")
    case None
    then show ?thesis .
  next
    case (Some m)
    obtain a b where "m = (a, b)" by (cases m)
    with Some have "github_match repoUrl = Some (a, b)" by simp
    from github_match_sound [OF this] obtain pre rest where d:
      "repoUrl = pre @ ''github.com/'' @ a @ ''/'' @ b @ rest"
      "a \<noteq> []" "CHR ''/'' \<notin> set a" "b \<noteq> []" "CHR ''/'' \<notin> set b"
      by blast
    from d(4) obtain c b' where b: "b = c # b'" by (cases b) auto
    with d(5) have "c \<noteq> CHR ''/''" by auto
    moreover have "repoUrl = pre @ ''github.com/'' @ a @ ''/'' @ c # (b' @ rest)"
      using d(1) b by simp
    ultimately have "\<exists>pre a c rest. repoUrl = pre @ ''github.com/'' @ a @ ''/'' @ c # rest
             \<and> a \<noteq> [] \<and> CHR ''/'' \<notin> set a \<and> c \<noteq> CHR ''/''"
      using d(2,3) by blast
    with n show ?thesis by blast
  qed
  then show "fetchGitHubCommit repoUrl commitHash token w
          = (Inl (InvalidUrl ''Invalid GitHub repository URL''), w)"
    by (simp add: fetchGitHubCommit_def)
qed

lemma example_github_match:
  "github_match ''https://gitlab.com/octo/hello'' = None"
  by (simp add: github_match_here_def)

theorem github_url_parsing_witness:
  "github_match ''https://github.com/octo/hello/tree/main'' = Some (''octo'', ''hello'')
   \<and> requests (snd (fetchGitHubCommit ''https://github.com/octo/hello/tree/main''
        ''0123456789'' None silent_world))
      = [github_request ''octo'' ''hello'' ''0123456789'' None]
   \<and> fetchGitHubCommit ''https://gitlab.com/octo/hello'' ''0123456789'' None silent_world
      = (Inl (InvalidUrl ''Invalid GitHub repository URL''), silent_world)"
proof -
  have absent: "\<not> (\<exists>pre a c rest.
      ''https://gitlab.com/octo/hello'' = pre @ ''github.com/'' @ a @ ''/'' @ c # rest
      \<and> a \<noteq> [] \<and> CHR ''/'' \<notin> set a \<and> c \<noteq> CHR ''/'')"
    using github_match_complete example_github_match by blast
  from github_url_parsing [where repoUrl = "''https://github.com/octo/hello/tree/main''"
      and scheme = "''https''" and owner = "''octo''" and name_n = "''hello''"
      and rest = "''/tree/main''" and commitHash = "''0123456789''" and token = None
      and w = silent_world]
  have a: "github_match ''https://github.com/octo/hello/tree/main'' = Some (''octo'', ''hello'')
   \<and> requests (snd (fetchGitHubCommit ''https://github.com/octo/hello/tree/main''
        ''0123456789'' None silent_world))
      = [github_request ''octo'' ''hello'' ''0123456789'' None]"
    by (simp add: silent_world_def)
  from github_url_parsing [where repoUrl = "''https://gitlab.com/octo/hello''"
      and commitHash = "''0123456789''" and token = None and w = silent_world] absent
  have b: "fetchGitHubCommit ''https://gitlab.com/octo/hello'' ''0123456789'' None silent_world
      = (Inl (InvalidUrl ''Invalid GitHub repository URL''), silent_world)"
    by blast
  from a b show ?thesis by simp
qed

text \<open>
  The pattern is not anchored: the text \<^verbatim>\<open>github.com/\<close> need not be a whole segment of
  the input. The input \<^verbatim>\<open>https://notgithub.com/a/b\<close> has no segment \<^verbatim>\<open>github.com\<close>, and
  the operation does not fail with the error of an invalid address: it sends the
  request for the owner \<^verbatim>\<open>a\<close> and the repository \<^verbatim>\<open>b\<close>.
\<close>

theorem github_segment_counterexample:
  "\<not> has_github_segment ''https://notgithub.com/a/b''
   \<and> fst (fetchGitHubCommit ''https://notgithub.com/a/b'' ''0123456789'' None silent_world)
       \<noteq> Inl (InvalidUrl ''Invalid GitHub repository URL'')
   \<and> requests (snd (fetchGitHubCommit ''https://notgithub.com/a/b'' ''0123456789'' None
        silent_world))
      = [github_request ''a'' ''b'' ''0123456789'' None]"
  by (simp add: has_github_segment_def fetchGitHubCommit_def github_match_here_def
      github_try_def fetch_def silent_world_def console_error_def)

text \<open>
  The second group of the pattern runs to the next \<^verbatim>\<open>/\<close> or to the end of the input, and
  \<^verbatim>\<open>?\<close> and \<^verbatim>\<open>#\<close> do not stop it. On an address with a query right after the name of the
  repository the group takes the query too; such an address is none of those the
  statement above speaks of in its first part, which says nothing of it.
\<close>

lemma github_query_taken_into_name:
  "github_match ''https://github.com/octo/hello?tab=readme-ov-file''
     = Some (''octo'', ''hello?tab=readme-ov-file'')"
  by (simp add: github_match_here_def)

end
